theory Spec2Isabelle
  imports
    Complex_Main
    "HOL-Library.Multiset"
    "HOL-Library.Char_ord"
    "HOL-Library.List_Lexorder"
    "HOL-Library.Product_Lexorder"
begin

section \<open>Shared types of the frontend (\<^verbatim>\<open>$lib/types\<close>)\<close>

text \<open>
  The TypeScript interfaces become records. Field names carry a prefix because
  several interfaces share \<^verbatim>\<open>id\<close>, \<^verbatim>\<open>status\<close> or \<^verbatim>\<open>error\<close>. An optional field
  (\<^verbatim>\<open>error?: ApiError\<close>) and a nullable one (\<^verbatim>\<open>Conversation | null\<close>) are
  \<open>option\<close>s.
\<close>

datatype role = User | Assistant | System

record message =
  msg_id :: string
  msg_role :: role
  msg_content :: string
  msg_created_at :: string

record conversation =
  conv_id :: string
  conv_title :: string
  conv_model_id :: string
  conv_created_at :: string
  conv_updated_at :: string
  conv_system_prompt :: "string option"
  conv_is_pinned :: bool
  conv_is_archived :: bool
  conv_messages :: "message list option"

record model =
  mdl_id :: string
  mdl_provider :: string
  mdl_name :: string
  mdl_display_name :: string
  mdl_context_length :: nat
  mdl_available :: bool

record api_error =
  err_code :: string
  err_message :: string

text \<open>
  \<^verbatim>\<open>ApiResponse<T>\<close>, the declared type through which the stores and the page
  read the result of an API method. The payload \<^verbatim>\<open>data\<close> is \<open>None\<close> when the
  result carries none, and for the empty object \<^verbatim>\<open>{}\<close> that \<^verbatim>\<open>handleError\<close>
  builds, which has none of the fields of \<^verbatim>\<open>T\<close>.
\<close>

record 'd api_response =
  resp_status :: bool
  resp_data :: "'d option"
  resp_error :: "api_error option"

text \<open>
  The outcome of an awaited call: the promise rejects (the \<^verbatim>\<open>catch\<close> branch runs) or
  it resolves with a value.
\<close>

datatype ('e, 'a) attempt = Threw 'e | Returned 'a

section \<open>The conversations store (\<^verbatim>\<open>conversations-store.ts\<close>)\<close>

record conversations_state =
  conversations :: "conversation list"
  isLoading :: bool
  currentConversation :: "conversation option"
  cs_error :: "string option"

text \<open>
  \<^verbatim>\<open>deleteConversation(conversationId, permanent)\<close>. The first argument is
  \<^verbatim>\<open>apiClient.deleteConversation\<close>, the awaited call; the result is the returned
  boolean and the store after the call. \<^verbatim>\<open>state.currentConversation?.id === conversationId\<close>
  is false when \<^verbatim>\<open>currentConversation\<close> is \<^verbatim>\<open>null\<close>.
\<close>

definition deleteConversation ::
  "(string \<Rightarrow> bool \<Rightarrow> ('e, 'd api_response) attempt) \<Rightarrow> string \<Rightarrow> bool \<Rightarrow>
     conversations_state \<Rightarrow> bool \<times> conversations_state" where
  "deleteConversation apiDelete conversationId permanent state =
     (case apiDelete conversationId permanent of
        Threw e \<Rightarrow> (False, state)
      | Returned response \<Rightarrow>
          if resp_status response then
            (True,
             state\<lparr>conversations :=
                      filter (\<lambda>c. conv_id c \<noteq> conversationId) (conversations state),
                    currentConversation :=
                      (if map_option conv_id (currentConversation state) = Some conversationId
                       then None else currentConversation state)\<rparr>)
          else (False, state))"

definition exampleConversation :: "string \<Rightarrow> conversation" where
  "exampleConversation i =
     \<lparr>conv_id = i, conv_title = ''Chat '' @ i, conv_model_id = ''ollama/llama3'',
      conv_created_at = ''2024-01-01T00:00:00.000Z'',
      conv_updated_at = ''2024-01-02T00:00:00.000Z'',
      conv_system_prompt = None, conv_is_pinned = False, conv_is_archived = False,
      conv_messages = None\<rparr>"

definition exampleConversations :: conversations_state where
  "exampleConversations =
     \<lparr>conversations = [exampleConversation ''a'', exampleConversation ''b'',
                        exampleConversation ''c''],
      isLoading = False,
      currentConversation = Some (exampleConversation ''b''),
      cs_error = None\<rparr>"

definition okResponse :: "unit api_response" where
  "okResponse = \<lparr>resp_status = True, resp_data = None, resp_error = None\<rparr>"

section \<open>The models store (\<^verbatim>\<open>conversations-store.ts\<close>, second module)\<close>

record models_state =
  models :: "model list"
  ms_isLoading :: bool
  selectedModel :: "model option"
  ms_error :: "string option"

text \<open>
  \<^verbatim>\<open>localStorage\<close> is a map from keys to strings; \<^verbatim>\<open>browser\<close> (from
  \<^verbatim>\<open>$app/environment\<close>) is a parameter of every operation that reads it.
\<close>

type_synonym storage = "string \<rightharpoonup> string"

text \<open>
  \<^verbatim>\<open>a.localeCompare(b)\<close> compares by the host's collation. The collation is the
  parameter \<open>collate\<close>, a sort key into a linear order; the result is negative, zero or
  positive as the keys compare.
\<close>

definition localeCompare :: "(string \<Rightarrow> 'k::linorder) \<Rightarrow> string \<Rightarrow> string \<Rightarrow> int" where
  "localeCompare collate a b =
     (if collate a < collate b then - 1 else if collate b < collate a then 1 else 0)"

text \<open>The comparator that \<^verbatim>\<open>loadModels\<close> passes to \<^verbatim>\<open>models.sort\<close>.\<close>

definition compareModels :: "(string \<Rightarrow> 'k::linorder) \<Rightarrow> model \<Rightarrow> model \<Rightarrow> int" where
  "compareModels collate a b =
     (if mdl_available a \<noteq> mdl_available b then (if mdl_available a then - 1 else 1)
      else if mdl_provider a \<noteq> mdl_provider b then
        (if mdl_provider a = ''ollama'' then - 1 else 1)
      else localeCompare collate (mdl_display_name a) (mdl_display_name b))"

text \<open>
  \<^verbatim>\<open>Array.prototype.sort(comparefn)\<close>: a stable sort. On a consistent comparator
  every stable sort returns the same array; the model is the insertion sort that
  takes the elements from left to right and puts each one before the first element
  it compares below (\<^verbatim>\<open>comparefn(x, y) < 0\<close>), hence after its equals. On a
  comparator that is not consistent the language leaves the order to the engine;
  the model then still is this insertion sort.
\<close>

fun insertSorted :: "('a \<Rightarrow> 'a \<Rightarrow> int) \<Rightarrow> 'a \<Rightarrow> 'a list \<Rightarrow> 'a list" where
  "insertSorted comparefn x [] = [x]"
| "insertSorted comparefn x (y # ys) =
     (if comparefn x y < 0 then x # y # ys else y # insertSorted comparefn x ys)"

definition arraySort :: "('a \<Rightarrow> 'a \<Rightarrow> int) \<Rightarrow> 'a list \<Rightarrow> 'a list" where
  "arraySort comparefn xs = foldl (\<lambda>acc x. insertSorted comparefn x acc) [] xs"

definition sortModels :: "(string \<Rightarrow> 'k::linorder) \<Rightarrow> model list \<Rightarrow> model list" where
  "sortModels collate ms = arraySort (compareModels collate) ms"

record models_payload =
  pl_models :: "model list option"

text \<open>
  \<^verbatim>\<open>loadModels()\<close>. \<open>apiGetModels\<close> is the awaited \<^verbatim>\<open>apiClient.getModels()\<close>. The
  result is the returned boolean, the store and \<^verbatim>\<open>localStorage\<close> after the call.
  \<^verbatim>\<open>response.data.models || []\<close> is the empty list when the field is missing;
  \<^verbatim>\<open>if (savedModelId)\<close> is false for a missing key and for the empty string.
\<close>

definition loadModels ::
  "(string \<Rightarrow> 'k::linorder) \<Rightarrow> bool \<Rightarrow> ('e, models_payload api_response) attempt \<Rightarrow>
     models_state \<times> storage \<Rightarrow> bool \<times> models_state \<times> storage" where
  "loadModels collate browser apiGetModels st =
     (let state = (fst st)\<lparr>ms_isLoading := True, ms_error := None\<rparr>;
          localStorage = snd st
      in case apiGetModels of
           Threw e \<Rightarrow>
             (False, state\<lparr>ms_error := Some ''Error loading models'', ms_isLoading := False\<rparr>,
              localStorage)
         | Returned response \<Rightarrow>
             if resp_status response then
               (let fetched = (case resp_data response of
                                 None \<Rightarrow> []
                               | Some d \<Rightarrow> (case pl_models d of None \<Rightarrow> [] | Some ms \<Rightarrow> ms));
                    ordered = sortModels collate fetched;
                    saved = (if browser then
                               (case localStorage ''selected_model_id'' of
                                  None \<Rightarrow> None
                                | Some savedModelId \<Rightarrow>
                                    if savedModelId \<noteq> [] then
                                      find (\<lambda>m. mdl_id m = savedModelId) ordered
                                    else None)
                             else None);
                    selected = (if saved = None \<and> ordered \<noteq> [] then
                                  (case find mdl_available ordered of
                                     Some m \<Rightarrow> Some m
                                   | None \<Rightarrow> Some (hd ordered))
                                else saved)
                in (True,
                    state\<lparr>models := ordered, selectedModel := selected, ms_isLoading := False\<rparr>,
                    (case selected of
                       Some m \<Rightarrow>
                         if browser then localStorage(''selected_model_id'' \<mapsto> mdl_id m)
                         else localStorage
                     | None \<Rightarrow> localStorage)))
             else
               (False,
                state\<lparr>ms_error :=
                        Some (case resp_error response of
                                None \<Rightarrow> ''Failed to load models''
                              | Some err \<Rightarrow>
                                  if err_message err \<noteq> [] then err_message err
                                  else ''Failed to load models''),
                      ms_isLoading := False\<rparr>,
                localStorage))"

text \<open>
  \<^verbatim>\<open>selectModel(modelId)\<close>: \<^verbatim>\<open>find\<close> returns the first model with the id,
  \<^verbatim>\<open>|| null\<close> turns a miss into \<^verbatim>\<open>null\<close>, and the write to \<^verbatim>\<open>localStorage\<close>
  is guarded by \<^verbatim>\<open>browser && selectedModel\<close>.
\<close>

definition selectModel ::
  "bool \<Rightarrow> string \<Rightarrow> models_state \<times> storage \<Rightarrow> models_state \<times> storage" where
  "selectModel browser modelId st =
     (let state = fst st; localStorage = snd st;
          selected = find (\<lambda>m. mdl_id m = modelId) (models state)
      in (state\<lparr>selectedModel := selected\<rparr>,
          (case selected of
             Some m \<Rightarrow>
               if browser then localStorage(''selected_model_id'' \<mapsto> mdl_id m)
               else localStorage
           | None \<Rightarrow> localStorage)))"

definition exampleModel :: "string \<Rightarrow> string \<Rightarrow> string \<Rightarrow> bool \<Rightarrow> model" where
  "exampleModel i p d a =
     \<lparr>mdl_id = i, mdl_provider = p, mdl_name = i, mdl_display_name = d,
      mdl_context_length = 4096, mdl_available = a\<rparr>"

definition exampleModels :: models_state where
  "exampleModels =
     \<lparr>models = [exampleModel ''llama3'' ''ollama'' ''Llama 3'' True,
                 exampleModel ''gpt-4'' ''openai'' ''GPT-4'' True],
      ms_isLoading = False, selectedModel = None, ms_error = None\<rparr>"

text \<open>
  The order the comparator is meant to induce, as a sort key and as a relation:
  available first, then the provider \<^verbatim>\<open>ollama\<close>, then the display name. The
  comparator is consistent with it on a list in which at most one provider other
  than \<^verbatim>\<open>ollama\<close> occurs (\<open>oneOtherProvider\<close>). \<open>loadedModels\<close> is the
  \<^verbatim>\<open>models\<close> field of the store after a successful \<^verbatim>\<open>loadModels\<close>.
\<close>

definition modelKey :: "(string \<Rightarrow> 'k::linorder) \<Rightarrow> model \<Rightarrow> bool \<times> bool \<times> 'k" where
  "modelKey collate m =
     (\<not> mdl_available m, mdl_provider m \<noteq> ''ollama'', collate (mdl_display_name m))"

definition presentedBefore :: "(string \<Rightarrow> 'k::linorder) \<Rightarrow> model \<Rightarrow> model \<Rightarrow> bool" where
  "presentedBefore collate a b =
     ((mdl_available a \<and> \<not> mdl_available b) \<or>
      (mdl_available a = mdl_available b \<and>
       ((mdl_provider a = ''ollama'' \<and> mdl_provider b \<noteq> ''ollama'') \<or>
        ((mdl_provider a = ''ollama'') = (mdl_provider b = ''ollama'') \<and>
         collate (mdl_display_name a) \<le> collate (mdl_display_name b)))))"

definition oneOtherProvider :: "model list \<Rightarrow> bool" where
  "oneOtherProvider ms =
     list_all (\<lambda>a. list_all (\<lambda>b. mdl_provider a = ''ollama'' \<or> mdl_provider b = ''ollama'' \<or>
                                   mdl_provider a = mdl_provider b) ms) ms"

definition loadedModels ::
  "(string \<Rightarrow> 'k::linorder) \<Rightarrow> bool \<Rightarrow> model list \<Rightarrow> models_state \<times> storage \<Rightarrow> model list" where
  "loadedModels collate browser fetched st =
     models (fst (snd (loadModels collate browser
       (Returned \<lparr>resp_status = True, resp_data = Some \<lparr>pl_models = Some fetched\<rparr>,
                  resp_error = None\<rparr> :: (unit, models_payload api_response) attempt) st)))"

definition exampleFetched :: "model list" where
  "exampleFetched =
     [exampleModel ''gpt-4'' ''openai'' ''GPT-4'' True,
      exampleModel ''llama3'' ''ollama'' ''Llama 3'' False,
      exampleModel ''gpt-3.5'' ''openai'' ''GPT-3.5'' True,
      exampleModel ''mistral'' ''ollama'' ''Mistral'' True]"

definition exampleClaude :: model where
  "exampleClaude = exampleModel ''claude-3'' ''anthropic'' ''Claude 3'' True"

definition exampleGpt :: model where
  "exampleGpt = exampleModel ''gpt-4'' ''openai'' ''GPT-4'' True"

definition exampleLlama8b :: model where
  "exampleLlama8b = exampleModel ''llama3:8b'' ''ollama'' ''Llama 3'' True"

definition exampleLlama70b :: model where
  "exampleLlama70b = exampleModel ''llama3:70b'' ''ollama'' ''Llama 3'' True"

section \<open>The API client (\<^verbatim>\<open>api-client.ts\<close>)\<close>

text \<open>
  A JavaScript value as the client meets one. The body of a response is typed
  \<^verbatim>\<open>any\<close>: it is whatever the server, or a proxy in front of it, sent, parsed as
  JSON when it parses and the text itself when it does not. An object is the list
  of its properties, each key once. A number of a body is never \<^verbatim>\<open>NaN\<close>.
\<close>

datatype js_value =
  JsUndefined
| JsNull
| JsBoolean bool
| JsNumber real
| JsString string
| JsArray "js_value list"
| JsObject "(string \<times> js_value) list"

text \<open>The conversion to a boolean that \<^verbatim>\<open>&&\<close>, \<^verbatim>\<open>||\<close> and \<^verbatim>\<open>if\<close> apply.\<close>

fun truthy :: "js_value \<Rightarrow> bool" where
  "truthy JsUndefined = False"
| "truthy JsNull = False"
| "truthy (JsBoolean b) = b"
| "truthy (JsNumber n) = (n \<noteq> 0)"
| "truthy (JsString s) = (s \<noteq> [])"
| "truthy (JsArray xs) = True"
| "truthy (JsObject fs) = True"

text \<open>
  Reading the property \<open>k\<close> of a value, \<^verbatim>\<open>v.k\<close>: \<open>None\<close> is the \<^verbatim>\<open>TypeError\<close>
  that reading a property of \<^verbatim>\<open>undefined\<close> or \<^verbatim>\<open>null\<close> raises. A missing property
  reads as \<^verbatim>\<open>undefined\<close>; so does every property of a string, number, boolean or
  array that is not one of its own or of its prototype, as is the case for the keys
  the client reads (\<^verbatim>\<open>status\<close>, \<^verbatim>\<open>data\<close>, \<^verbatim>\<open>error\<close>, \<^verbatim>\<open>token\<close>, \<^verbatim>\<open>code\<close>,
  \<^verbatim>\<open>message\<close>). \<open>readOptional\<close> is the read with optional chaining, \<^verbatim>\<open>v?.k\<close>.
\<close>

fun readProperty :: "js_value \<Rightarrow> string \<Rightarrow> js_value option" where
  "readProperty JsUndefined k = None"
| "readProperty JsNull k = None"
| "readProperty (JsObject fs) k = Some (case map_of fs k of None \<Rightarrow> JsUndefined | Some v \<Rightarrow> v)"
| "readProperty (JsBoolean b) k = Some JsUndefined"
| "readProperty (JsNumber n) k = Some JsUndefined"
| "readProperty (JsString s) k = Some JsUndefined"
| "readProperty (JsArray xs) k = Some JsUndefined"

definition readOptional :: "js_value \<Rightarrow> string \<Rightarrow> js_value" where
  "readOptional v k = (case readProperty v k of None \<Rightarrow> JsUndefined | Some x \<Rightarrow> x)"

text \<open>
  A tagged result: a value that carries the boolean \<^verbatim>\<open>status\<close> flag of
  \<^verbatim>\<open>ApiResponse\<close>.
\<close>

definition tagged :: "js_value \<Rightarrow> bool" where
  "tagged v = (case readOptional v ''status'' of JsBoolean b \<Rightarrow> True | _ \<Rightarrow> False)"

text \<open>
  What an axios call settles to. A resolved call carries the response with its body
  \<^verbatim>\<open>response.data\<close>. A rejected call carries an error object: its \<^verbatim>\<open>message\<close>
  (\<open>None\<close> when missing) and, when the server answered, the \<^verbatim>\<open>response\<close> with its
  body. The interceptors of the axios instance add the auth token to a request
  and, on a 401, clear it and redirect to the login page; they pass the outcome on
  as it is.
\<close>

record axios_response =
  ax_status :: nat
  ax_data :: js_value

record error_response =
  er_status :: nat
  er_data :: js_value

record axios_error =
  ax_message :: "string option"
  ax_response :: "error_response option"

type_synonym axios_call = "(axios_error, axios_response) attempt"

text \<open>
  The object literal at the end of \<^verbatim>\<open>handleError\<close>, with
  \<^verbatim>\<open>error.message || 'An unknown error occurred'\<close>.
\<close>

definition unknownError :: "string option \<Rightarrow> js_value" where
  "unknownError message =
     JsObject
       [(''status'', JsBoolean False),
        (''data'', JsObject []),
        (''error'',
         JsObject
           [(''code'', JsString ''unknown_error''),
            (''message'',
             JsString (case message of
                         None \<Rightarrow> ''An unknown error occurred''
                       | Some m \<Rightarrow> if m \<noteq> [] then m else ''An unknown error occurred''))])]"

text \<open>
  \<^verbatim>\<open>handleError(error)\<close>: the guard \<^verbatim>\<open>error.response && error.response.data\<close> asks
  whether there is a response with a truthy body, and the body is returned as it
  is, unchecked.
\<close>

definition handleError :: "axios_error \<Rightarrow> js_value" where
  "handleError error =
     (case ax_response error of
        None \<Rightarrow> unknownError (ax_message error)
      | Some response \<Rightarrow>
          if truthy (er_data response) then er_data response
          else unknownError (ax_message error))"

text \<open>
  The body shared by the HTTP methods of the client other than \<^verbatim>\<open>login\<close> and
  \<^verbatim>\<open>register\<close>:
  \<^verbatim>\<open>try { const response = await axiosInstance...; return response.data } catch (error) { return this.handleError(error) }\<close>.
  The methods differ in the verb, the URL and the request body; \<^verbatim>\<open>uploadDocument\<close>
  builds its form data inside the \<^verbatim>\<open>try\<close> block first, and an exception raised
  there takes the \<^verbatim>\<open>catch\<close> branch as an error without a response. The result is
  what the \<^verbatim>\<open>async\<close> method settles to.
\<close>

definition request :: "axios_call \<Rightarrow> (axios_error, js_value) attempt" where
  "request call =
     (case call of
        Returned response \<Rightarrow> Returned (ax_data response)
      | Threw error \<Rightarrow> Returned (handleError error))"

text \<open>The truthy body of a rejected call's response, when there is one.\<close>

definition responseBody :: "axios_error \<Rightarrow> js_value option" where
  "responseBody error =
     (case ax_response error of
        None \<Rightarrow> None
      | Some response \<Rightarrow> if truthy (er_data response) then Some (er_data response) else None)"

record 'p chat_body =
  cb_message :: string
  cb_parameters :: "'p option"
  cb_stream :: bool

definition sendChatMessage ::
  "(string \<Rightarrow> 'p chat_body \<Rightarrow> axios_call) \<Rightarrow> string \<Rightarrow> string \<Rightarrow> 'p option \<Rightarrow>
     (axios_error, js_value) attempt" where
  "sendChatMessage post conversationId message parameters =
     request (post (''/chat/'' @ conversationId)
        \<lparr>cb_message = message, cb_parameters = parameters, cb_stream = False\<rparr>)"

record conversation_create_request =
  ccr_title :: string
  ccr_model_id :: string
  ccr_system_prompt :: "string option"
  ccr_tags :: "string list option"

definition createConversation ::
  "(string \<Rightarrow> conversation_create_request \<Rightarrow> axios_call) \<Rightarrow> conversation_create_request \<Rightarrow>
     (axios_error, js_value) attempt" where
  "createConversation post data = request (post ''/conversations'' data)"

text \<open>
  \<^verbatim>\<open>login\<close> and \<^verbatim>\<open>register\<close> read \<^verbatim>\<open>response.data.data.token\<close> inside the
  \<^verbatim>\<open>try\<close> block and store it before they return the body. When the body or its
  \<^verbatim>\<open>data\<close> is \<^verbatim>\<open>undefined\<close> or \<^verbatim>\<open>null\<close> the read raises a \<^verbatim>\<open>TypeError\<close>, which the
  \<^verbatim>\<open>catch\<close> hands to \<^verbatim>\<open>handleError\<close> as an error without a response. The message of
  that error is the engine's (\<open>typeErrorMessage\<close>); \<open>stringOf\<close> is the conversion to a
  string that \<^verbatim>\<open>localStorage.setItem\<close> applies to the token.
\<close>

definition authenticate ::
  "(js_value \<Rightarrow> string) \<Rightarrow> string \<Rightarrow> axios_call \<Rightarrow> storage \<Rightarrow>
     (axios_error, js_value) attempt \<times> storage" where
  "authenticate stringOf typeErrorMessage call localStorage =
     (let typeError = \<lparr>ax_message = Some typeErrorMessage, ax_response = None\<rparr>
      in case call of
           Threw error \<Rightarrow> (Returned (handleError error), localStorage)
         | Returned response \<Rightarrow>
             (case readProperty (ax_data response) ''data'' of
                None \<Rightarrow> (Returned (handleError typeError), localStorage)
              | Some inner \<Rightarrow>
                  (case readProperty inner ''token'' of
                     None \<Rightarrow> (Returned (handleError typeError), localStorage)
                   | Some token \<Rightarrow>
                       (Returned (ax_data response),
                        localStorage(''auth_token'' \<mapsto> stringOf token)))))"

record login_body =
  lb_email :: string
  lb_password :: string

record register_body =
  rb_name :: string
  rb_email :: string
  rb_password :: string

definition login ::
  "(js_value \<Rightarrow> string) \<Rightarrow> string \<Rightarrow> (string \<Rightarrow> login_body \<Rightarrow> axios_call) \<Rightarrow> string \<Rightarrow> string \<Rightarrow>
     storage \<Rightarrow> (axios_error, js_value) attempt \<times> storage" where
  "login stringOf typeErrorMessage post email password localStorage =
     authenticate stringOf typeErrorMessage
       (post ''/auth/login'' \<lparr>lb_email = email, lb_password = password\<rparr>) localStorage"

definition register ::
  "(js_value \<Rightarrow> string) \<Rightarrow> string \<Rightarrow> (string \<Rightarrow> register_body \<Rightarrow> axios_call) \<Rightarrow> string \<Rightarrow> string \<Rightarrow>
     string \<Rightarrow> storage \<Rightarrow> (axios_error, js_value) attempt \<times> storage" where
  "register stringOf typeErrorMessage post name email password localStorage =
     authenticate stringOf typeErrorMessage
       (post ''/auth/register'' \<lparr>rb_name = name, rb_email = email, rb_password = password\<rparr>)
       localStorage"

text \<open>
  The socket of the browser, as far as the streaming client uses it: the stream ids
  whose \<^verbatim>\<open>stream:<id>:token\<close>, \<^verbatim>\<open>:done\<close> and \<^verbatim>\<open>:error\<close> listeners are registered
  (one entry per \<^verbatim>\<open>socket.on\<close>), and the messages emitted to the server. The
  \<^verbatim>\<open>chat:message\<close>, \<^verbatim>\<open>chat:update\<close> and \<^verbatim>\<open>chat:typing\<close> listeners of the page are
  not part of the model.
\<close>

datatype 'p socket_emit =
  ChatStream string string "'p option" string
| ChatCancel string string

record 'p socket_state =
  stream_listeners :: "string list"
  emitted :: "'p socket_emit list"

text \<open>The clock readings \<^verbatim>\<open>Date.now()\<close> and \<^verbatim>\<open>new Date().toISOString()\<close>.\<close>

record clock =
  now_ms :: nat
  now_iso :: string

fun decimal :: "nat \<Rightarrow> string" where
  "decimal n =
     (if n < 10 then [char_of (48 + n)]
      else decimal (n div 10) @ [char_of (48 + n mod 10)])"

declare decimal.simps [simp del]

text \<open>
  \<^verbatim>\<open>streamChatResponse\<close>: builds the stream id from the clock and the random suffix
  (\<^verbatim>\<open>Math.random().toString(36).substring(2, 9)\<close>, the parameter \<open>suffix\<close>),
  registers the three listeners, emits \<^verbatim>\<open>chat:stream\<close> and returns the id. What the
  listeners do is \<open>receive\<close> below.
\<close>

definition streamId :: "clock \<Rightarrow> string \<Rightarrow> string" where
  "streamId clk suffix = ''stream-'' @ decimal (now_ms clk) @ ''-'' @ suffix"

definition streamChatResponse ::
  "clock \<Rightarrow> string \<Rightarrow> string \<Rightarrow> string \<Rightarrow> 'p option \<Rightarrow> 'p socket_state \<Rightarrow>
     string \<times> 'p socket_state" where
  "streamChatResponse clk suffix conversationId message parameters sock =
     (streamId clk suffix,
      sock\<lparr>stream_listeners := stream_listeners sock @ [streamId clk suffix],
           emitted := emitted sock @
             [ChatStream conversationId message parameters (streamId clk suffix)]\<rparr>)"

section \<open>The chat page (\<^verbatim>\<open>chat-page.ts\<close>)\<close>

text \<open>
  The variables of the component. \<open>routeId\<close> is the constant \<^verbatim>\<open>conversationId\<close>
  read from the route.
\<close>

record chat_page =
  routeId :: string
  conversation :: "conversation option"
  messages :: "message list"
  loading :: bool
  pg_error :: "string option"
  streaming :: bool
  streamedMessage :: string
  activeSocketId :: "string option"

definition isNewChat :: "chat_page \<Rightarrow> bool" where
  "isNewChat pg = (routeId pg = ''new'')"

text \<open>The two callbacks \<^verbatim>\<open>handleSendMessage\<close> hands to \<^verbatim>\<open>streamChatResponse\<close>.\<close>

definition onToken :: "string \<Rightarrow> chat_page \<Rightarrow> chat_page" where
  "onToken token pg = pg\<lparr>streamedMessage := streamedMessage pg @ token\<rparr>"

definition onComplete :: "clock \<Rightarrow> chat_page \<Rightarrow> chat_page" where
  "onComplete clk pg =
     pg\<lparr>messages := messages pg @
            [\<lparr>msg_id = ''stream-'' @ decimal (now_ms clk), msg_role = Assistant,
              msg_content = streamedMessage pg, msg_created_at = now_iso clk\<rparr>],
        streaming := False,
        streamedMessage := [],
        activeSocketId := None\<rparr>"

text \<open>
  An event of one stream arriving on the socket. Every listener registered under
  the stream's id runs: a token calls \<^verbatim>\<open>onToken\<close>; \<^verbatim>\<open>done\<close> and \<^verbatim>\<open>error\<close> both
  remove the stream's listeners and call \<^verbatim>\<open>onComplete\<close>. An event for an id without
  listeners changes nothing.
\<close>

datatype stream_event = TokenEvent string | DoneEvent clock | ErrorEvent string clock

definition receive ::
  "string \<Rightarrow> stream_event \<Rightarrow> chat_page \<times> 'p socket_state \<Rightarrow> chat_page \<times> 'p socket_state" where
  "receive sid ev w =
     (let pg = fst w; sock = snd w; n = count_list (stream_listeners sock) sid
      in case ev of
           TokenEvent token \<Rightarrow> ((onToken token ^^ n) pg, sock)
         | DoneEvent clk \<Rightarrow>
             ((onComplete clk ^^ n) pg,
              sock\<lparr>stream_listeners := removeAll sid (stream_listeners sock)\<rparr>)
         | ErrorEvent e clk \<Rightarrow>
             ((onComplete clk ^^ n) pg,
              sock\<lparr>stream_listeners := removeAll sid (stream_listeners sock)\<rparr>))"

definition receiveAll ::
  "string \<Rightarrow> stream_event list \<Rightarrow> chat_page \<times> 'p socket_state \<Rightarrow>
     chat_page \<times> 'p socket_state" where
  "receiveAll sid evs w = fold (receive sid) evs w"

text \<open>
  \<^verbatim>\<open>message.trim()\<close> is empty when the message holds only characters that
  \<^verbatim>\<open>trim\<close> strips, white space and line terminators. A string here is a list of
  8-bit characters, the code units below 256; among them \<^verbatim>\<open>trim\<close> strips the six
  ASCII ones and the no-break space U+00A0.
\<close>

definition isWhiteSpace :: "char \<Rightarrow> bool" where
  "isWhiteSpace c =
     (c \<in> set [CHR '' '', CHR 0x09, CHR 0x0A, CHR 0x0B, CHR 0x0C, CHR 0x0D, CHR 0xA0])"

definition blank :: "string \<Rightarrow> bool" where
  "blank s = list_all isWhiteSpace s"

record 'p send_detail =
  d_message :: string
  d_stream :: bool
  d_parameters :: "'p option"

record chat_reply =
  user_message :: message
  assistant_message :: message

text \<open>
  \<^verbatim>\<open>handleSendMessage(event)\<close>, on the page and the socket. \<open>apiCreateConversation\<close>
  and \<open>apiSendChatMessage\<close> are the awaited \<^verbatim>\<open>apiClient.createConversation\<close> and
  \<^verbatim>\<open>apiClient.sendChatMessage\<close>, whose result the page reads through the declared
  type \<^verbatim>\<open>ApiResponse<T>\<close>; a result without \<^verbatim>\<open>data\<close> has \<open>resp_data = None\<close>.
  \<open>clk\<close> and \<open>suffix\<close> are the clock and the random suffix read during the call.
  Reading a property of a missing value raises inside the \<^verbatim>\<open>try\<close> block and takes
  the \<^verbatim>\<open>catch\<close> branch, after the assignments that precede the read. The
  navigation and the update of the conversations store after a successful creation
  are outside the page's variables.
\<close>

text \<open>\<^verbatim>\<open>response.error?.message || fallback\<close>.\<close>

definition failureMessage :: "'d api_response \<Rightarrow> string \<Rightarrow> string" where
  "failureMessage response fallback =
     (case resp_error response of
        None \<Rightarrow> fallback
      | Some err \<Rightarrow> if err_message err \<noteq> [] then err_message err else fallback)"

text \<open>
  The second half of \<^verbatim>\<open>handleSendMessage\<close>, from the user message on, once the
  conversation of the send is in \<^verbatim>\<open>conversation\<close>. In the non-streaming branch a
  successful response without a payload has the temporary user message filtered
  out before \<^verbatim>\<open>response.data.user_message\<close> raises.
\<close>

definition sendToModel ::
  "(string \<Rightarrow> string \<Rightarrow> 'p option \<Rightarrow> ('e, chat_reply api_response) attempt) \<Rightarrow> clock \<Rightarrow> string \<Rightarrow>
   'p send_detail \<Rightarrow> chat_page \<times> 'p socket_state \<Rightarrow> chat_page \<times> 'p socket_state" where
  "sendToModel apiSendChatMessage clk suffix detail w =
     (let userMessage = \<lparr>msg_id = ''temp-'' @ decimal (now_ms clk), msg_role = User,
                          msg_content = d_message detail, msg_created_at = now_iso clk\<rparr>;
          pg = (fst w)\<lparr>messages := messages (fst w) @ [userMessage],
                       streaming := True, streamedMessage := []\<rparr>;
          sock = snd w;
          failed = (pg\<lparr>pg_error := Some ''Error sending message'', streaming := False\<rparr>, sock)
      in case conversation pg of
           None \<Rightarrow> failed
         | Some conv \<Rightarrow>
             if d_stream detail then
               (let started = streamChatResponse clk suffix (conv_id conv)
                                (d_message detail) (d_parameters detail) sock
                in (pg\<lparr>activeSocketId := Some (fst started)\<rparr>, snd started))
             else
               (case apiSendChatMessage (conv_id conv) (d_message detail) (d_parameters detail) of
                  Threw e \<Rightarrow> failed
                | Returned response \<Rightarrow>
                    if resp_status response then
                      (case resp_data response of
                         None \<Rightarrow>
                           (pg\<lparr>messages :=
                                  filter (\<lambda>m. msg_id m \<noteq> msg_id userMessage) (messages pg),
                               pg_error := Some ''Error sending message'',
                               streaming := False\<rparr>, sock)
                       | Some reply \<Rightarrow>
                           (pg\<lparr>messages :=
                                  filter (\<lambda>m. msg_id m \<noteq> msg_id userMessage) (messages pg) @
                                  [user_message reply, assistant_message reply],
                               streaming := False\<rparr>, sock))
                    else
                      (pg\<lparr>pg_error := Some (failureMessage response ''Failed to send message''),
                          streaming := False\<rparr>, sock)))"

text \<open>
  The request that creates the conversation of a new chat, titled with the message
  or its first 30 characters and an ellipsis.
\<close>

definition creationRequest :: "string \<Rightarrow> conversation \<Rightarrow> conversation_create_request" where
  "creationRequest message draft =
     \<lparr>ccr_title = (if length message > 30 then take 30 message @ ''...'' else message),
      ccr_model_id = conv_model_id draft,
      ccr_system_prompt = conv_system_prompt draft,
      ccr_tags = None\<rparr>"

text \<open>
  On a new chat the handler suspends at \<^verbatim>\<open>await apiClient.createConversation\<close>,
  before it has changed any variable of the page. \<open>afterCreate\<close> is what runs when
  the call has settled, on the page as it is then. A successful response without
  a payload is assigned to \<^verbatim>\<open>conversation\<close> before \<^verbatim>\<open>conversation.id\<close> raises.
\<close>

definition afterCreate ::
  "(string \<Rightarrow> string \<Rightarrow> 'p option \<Rightarrow> ('e, chat_reply api_response) attempt) \<Rightarrow> clock \<Rightarrow> string \<Rightarrow>
   'p send_detail \<Rightarrow> ('e, conversation api_response) attempt \<Rightarrow>
     chat_page \<times> 'p socket_state \<Rightarrow> chat_page \<times> 'p socket_state" where
  "afterCreate apiSendChatMessage clk suffix detail settled w =
     (let pg = fst w; sock = snd w
      in case settled of
           Threw e \<Rightarrow> (pg\<lparr>pg_error := Some ''Error creating conversation''\<rparr>, sock)
         | Returned response \<Rightarrow>
             if resp_status response then
               (case resp_data response of
                  None \<Rightarrow>
                    (pg\<lparr>conversation := None,
                        pg_error := Some ''Error creating conversation''\<rparr>, sock)
                | Some created \<Rightarrow>
                    sendToModel apiSendChatMessage clk suffix detail
                      (pg\<lparr>conversation := Some created\<rparr>, sock))
             else
               (pg\<lparr>pg_error :=
                     Some (failureMessage response ''Failed to create conversation'')\<rparr>,
                sock))"

text \<open>
  The whole handler: the guard on a blank message, the creation of the conversation
  on a new chat, then the send. It is the handler of one send during whose creation
  call no other handler of the page runs: the continuation is applied to the page
  the send started from. While that call is pending the page still is as before the
  send, with \<^verbatim>\<open>streaming\<close> not yet set.
\<close>

definition handleSendMessage ::
  "(conversation_create_request \<Rightarrow> ('e, conversation api_response) attempt) \<Rightarrow>
   (string \<Rightarrow> string \<Rightarrow> 'p option \<Rightarrow> ('e, chat_reply api_response) attempt) \<Rightarrow> clock \<Rightarrow> string \<Rightarrow>
   'p send_detail \<Rightarrow> chat_page \<times> 'p socket_state \<Rightarrow> chat_page \<times> 'p socket_state" where
  "handleSendMessage apiCreateConversation apiSendChatMessage clk suffix detail w =
     (let pg = fst w; sock = snd w; message = d_message detail
      in if blank message then w
         else if isNewChat pg then
           (case conversation pg of
              None \<Rightarrow> (pg\<lparr>pg_error := Some ''Error creating conversation''\<rparr>, sock)
            | Some draft \<Rightarrow>
                afterCreate apiSendChatMessage clk suffix detail
                  (apiCreateConversation (creationRequest message draft)) w)
         else sendToModel apiSendChatMessage clk suffix detail w)"

text \<open>
  The conversation a send goes to: the page's own on an existing chat, the one just
  created on a new chat; none when the page has none or the creation fails.
\<close>

definition conversationForSend ::
  "(conversation_create_request \<Rightarrow> ('e, conversation api_response) attempt) \<Rightarrow> 'p send_detail \<Rightarrow>
     chat_page \<Rightarrow> conversation option" where
  "conversationForSend apiCreateConversation detail pg =
     (if isNewChat pg then
        (case conversation pg of
           None \<Rightarrow> None
         | Some draft \<Rightarrow>
             (case apiCreateConversation (creationRequest (d_message detail) draft) of
                Threw e \<Rightarrow> None
              | Returned response \<Rightarrow>
                  if resp_status response then resp_data response else None))
      else conversation pg)"

text \<open>
  \<^verbatim>\<open>onDestroy\<close>: the cancellation request goes out when a stream is active
  (\<^verbatim>\<open>activeSocketId\<close> is a non-empty string). The binding
  \<^verbatim>\<open>disabled={streaming || isNewChat && !$modelsStore.selectedModel}\<close> of the chat
  input is \<open>chatInputDisabled\<close>.
\<close>

definition onDestroy :: "chat_page \<Rightarrow> 'p socket_state \<Rightarrow> 'p socket_state" where
  "onDestroy pg sock =
     (case activeSocketId pg of
        None \<Rightarrow> sock
      | Some sid \<Rightarrow>
          if sid \<noteq> [] then sock\<lparr>emitted := emitted sock @ [ChatCancel (routeId pg) sid]\<rparr>
          else sock)"

definition chatInputDisabled :: "chat_page \<Rightarrow> model option \<Rightarrow> bool" where
  "chatInputDisabled pg selected = (streaming pg \<or> (isNewChat pg \<and> selected = None))"

definition examplePage :: chat_page where
  "examplePage =
     \<lparr>routeId = ''b'', conversation = Some (exampleConversation ''b''), messages = [],
      loading = False, pg_error = None, streaming = False, streamedMessage = [],
      activeSocketId = None\<rparr>"

definition exampleSocket :: "unit socket_state" where
  "exampleSocket = \<lparr>stream_listeners = [], emitted = []\<rparr>"

definition exampleDetail :: "unit send_detail" where
  "exampleDetail = \<lparr>d_message = ''What colour is the sky?'', d_stream = True, d_parameters = None\<rparr>"

definition exampleClock :: "nat \<Rightarrow> clock" where
  "exampleClock n = \<lparr>now_ms = n, now_iso = ''2024-01-02T00:00:0'' @ decimal n @ ''.000Z''\<rparr>"

text \<open>
  Example outcomes of the calls: an axios call that fails without a response, one
  that is answered by a proxy's error page, and the API methods of a client that
  is offline, read through the declared type.
\<close>

definition noPost :: "string \<Rightarrow> 'b \<Rightarrow> axios_call" where
  "noPost url body = Threw \<lparr>ax_message = Some ''Network Error'', ax_response = None\<rparr>"

definition proxyPost :: "string \<Rightarrow> 'b \<Rightarrow> axios_call" where
  "proxyPost url body =
     Threw \<lparr>ax_message = Some ''Request failed with status code 502'',
            ax_response =
              Some \<lparr>er_status = 502, er_data = JsString ''<html>502 Bad Gateway</html>''\<rparr>\<rparr>"

definition networkFailure :: "'d api_response" where
  "networkFailure =
     \<lparr>resp_status = False, resp_data = None,
      resp_error = Some \<lparr>err_code = ''unknown_error'', err_message = ''Network Error''\<rparr>\<rparr>"

definition offlineCreate ::
  "conversation_create_request \<Rightarrow> (unit, conversation api_response) attempt" where
  "offlineCreate data = Returned networkFailure"

definition offlineSend ::
  "string \<Rightarrow> string \<Rightarrow> unit option \<Rightarrow> (unit, chat_reply api_response) attempt" where
  "offlineSend conversationId message parameters = Returned networkFailure"

section \<open>The gateway core described by the specification\<close>

text \<open>
  The provider registry, the retrieval pipeline and the streaming session manager
  are backend modules (\<^verbatim>\<open>backend/app/providers\<close>, \<^verbatim>\<open>backend/app/rag\<close>,
  \<^verbatim>\<open>backend/app/core\<close>) that are not among the sources; the frontend above only
  calls them. The definitions of this section follow the specification.
\<close>

datatype gateway_error =
  ProviderUnreachable | ModelNotFound | ModelUnavailable | EmbeddingUnavailable
| AdapterStreamError | AdapterTimeout | IngestionError | SessionConflict

subsection \<open>Provider registry\<close>

text \<open>
  Modelled from the spec: the Provider Registry and its \<^verbatim>\<open>selectAdapter\<close> (section
  4.2), missing from the sources. An adapter declares the model ids of its catalog
  and carries the health mark of its last probe.
\<close>

record adapter =
  ad_provider :: string
  ad_catalog :: "string list"
  ad_healthy :: bool

text \<open>
  Modelled from the spec: \<^verbatim>\<open>selectAdapter(modelId)\<close>, missing from the sources:
  exact match on the model id; \<^verbatim>\<open>ModelNotFound\<close> if no adapter declares the id;
  \<^verbatim>\<open>ModelUnavailable\<close> if the model exists but its adapter is marked unhealthy; no
  substitution.
\<close>

definition selectAdapter :: "adapter list \<Rightarrow> string \<Rightarrow> gateway_error + adapter" where
  "selectAdapter registry modelId =
     (case find (\<lambda>a. modelId \<in> set (ad_catalog a)) registry of
        None \<Rightarrow> Inl ModelNotFound
      | Some a \<Rightarrow> if ad_healthy a then Inr a else Inl ModelUnavailable)"

definition exampleRegistry :: "adapter list" where
  "exampleRegistry =
     [\<lparr>ad_provider = ''ollama'', ad_catalog = [''llama3'', ''mistral''], ad_healthy = True\<rparr>,
      \<lparr>ad_provider = ''openai'', ad_catalog = [''gpt-4'', ''gpt-3.5''], ad_healthy = False\<rparr>]"

subsection \<open>Retrieval pipeline\<close>

text \<open>
  Modelled from the spec: the \<^verbatim>\<open>RetrievalChunk\<close> of section 3, missing from the
  sources: a span of a document with its text, its character offset, the document
  id and the embedding vector.
\<close>

record retrieval_chunk =
  rc_text :: string
  rc_offset :: nat
  rc_document :: string
  rc_embedding :: "real list"

text \<open>
  Modelled from the spec: the cosine similarity of \<^verbatim>\<open>retrieve\<close> (section 4.3),
  missing from the sources, over the reals; a vector of norm zero has similarity
  zero to every vector.
\<close>

definition dot :: "real list \<Rightarrow> real list \<Rightarrow> real" where
  "dot u v = sum_list (map2 (*) u v)"

definition cosine :: "real list \<Rightarrow> real list \<Rightarrow> real" where
  "cosine u v =
     (if dot u u = 0 \<or> dot v v = 0 then 0 else dot u v / (sqrt (dot u u) * sqrt (dot v v)))"

text \<open>
  Modelled from the spec: \<^verbatim>\<open>retrieve(query, top_k, relevance_threshold)\<close> (section
  4.3), missing from the sources: embeds the query, keeps the stored chunks whose
  cosine similarity reaches the threshold, orders them by descending similarity and
  returns at most \<open>top_k\<close> of them; nothing clearing the threshold gives the empty
  sequence.
\<close>

definition similarity :: "(string \<Rightarrow> real list) \<Rightarrow> string \<Rightarrow> retrieval_chunk \<Rightarrow> real" where
  "similarity embedder query c = cosine (embedder query) (rc_embedding c)"

definition retrieve ::
  "(string \<Rightarrow> real list) \<Rightarrow> retrieval_chunk list \<Rightarrow> string \<Rightarrow> nat \<Rightarrow> real \<Rightarrow>
     retrieval_chunk list" where
  "retrieve embedder store query top_k relevance_threshold =
     take top_k
       (sort_key (\<lambda>c. - similarity embedder query c)
          (filter (\<lambda>c. relevance_threshold \<le> similarity embedder query c) store))"

definition exampleEmbed :: "string \<Rightarrow> real list" where
  "exampleEmbed q = (if q = ''sky'' then [1, 0] else [0, 1])"

definition exampleStore :: "retrieval_chunk list" where
  "exampleStore =
     [\<lparr>rc_text = ''grass is green'', rc_offset = 0, rc_document = ''d1'', rc_embedding = [0, 1]\<rparr>,
      \<lparr>rc_text = ''the sky is blue'', rc_offset = 14, rc_document = ''d1'', rc_embedding = [1, 0]\<rparr>,
      \<lparr>rc_text = ''night is dark'', rc_offset = 0, rc_document = ''d2'', rc_embedding = [- 1, 0]\<rparr>]"

subsection \<open>Streaming session manager\<close>

text \<open>
  Modelled from the spec: the \<^verbatim>\<open>StreamingSession\<close> of section 3 and the state
  machine of section 4.4, missing from the sources.
\<close>

datatype session_state = Pending | Streaming | Completed | Cancelled | Failed

record session =
  ss_id :: nat
  ss_conversation :: string
  ss_state :: session_state
  ss_output :: string
  ss_cancel_flag :: bool

datatype session_event =
  AdapterInvoked | Token string | EndOfStream | StreamError | Timeout | CancelRequest

definition terminal :: "session_state \<Rightarrow> bool" where
  "terminal st = (st = Completed \<or> st = Cancelled \<or> st = Failed)"

text \<open>
  Modelled from the spec: the transitions of the session manager (sections 4.4 and
  5), missing from the sources. Terminal states are sinks. A pending session starts
  streaming when the adapter is invoked; a streaming session appends each token,
  completes at end of stream and fails on a stream error; a timeout fails a session
  that is not terminal; a cancellation request takes a pending or streaming session
  to \<^verbatim>\<open>Cancelled\<close> and is a no-op on a terminal one. An event that does not apply to
  the state leaves the session as it is.
\<close>

definition step :: "session \<Rightarrow> session_event \<Rightarrow> session" where
  "step s ev =
     (case ss_state s of
        Pending \<Rightarrow>
          (case ev of
             AdapterInvoked \<Rightarrow> s\<lparr>ss_state := Streaming\<rparr>
           | Timeout \<Rightarrow> s\<lparr>ss_state := Failed\<rparr>
           | CancelRequest \<Rightarrow> s\<lparr>ss_state := Cancelled, ss_cancel_flag := True\<rparr>
           | _ \<Rightarrow> s)
      | Streaming \<Rightarrow>
          (case ev of
             Token t \<Rightarrow> s\<lparr>ss_output := ss_output s @ t\<rparr>
           | EndOfStream \<Rightarrow> s\<lparr>ss_state := Completed\<rparr>
           | StreamError \<Rightarrow> s\<lparr>ss_state := Failed\<rparr>
           | Timeout \<Rightarrow> s\<lparr>ss_state := Failed\<rparr>
           | CancelRequest \<Rightarrow> s\<lparr>ss_state := Cancelled, ss_cancel_flag := True\<rparr>
           | AdapterInvoked \<Rightarrow> s)
      | _ \<Rightarrow> s)"

text \<open>
  Modelled from the spec: a cancellation request and a run of events on a session,
  missing from the sources.
\<close>

definition cancel :: "session \<Rightarrow> session" where
  "cancel s = step s CancelRequest"

definition run :: "session \<Rightarrow> session_event list \<Rightarrow> session" where
  "run s evs = foldl step s evs"

definition exampleSession :: "session_state \<Rightarrow> session" where
  "exampleSession st =
     \<lparr>ss_id = 7, ss_conversation = ''b'', ss_state = st, ss_output = ''The sky'',
      ss_cancel_flag = False\<rparr>"

text \<open>
  Modelled from the spec: the session table of the Streaming Session Manager
  (sections 4.4 and 9), missing from the sources: the sessions the manager owns,
  each with its unique id. A session is in flight while it is \<^verbatim>\<open>Pending\<close> or
  \<^verbatim>\<open>Streaming\<close>.
\<close>

definition inFlight :: "session \<Rightarrow> bool" where
  "inFlight s = (ss_state s = Pending \<or> ss_state s = Streaming)"

definition freshId :: "session list \<Rightarrow> nat" where
  "freshId table = Suc (fold max (map ss_id table) 0)"

text \<open>
  Modelled from the spec: starting a generation for a conversation (section 4.4),
  missing from the sources: rejected with \<^verbatim>\<open>SessionConflict\<close> while a session of
  the same conversation is \<^verbatim>\<open>Pending\<close> or \<^verbatim>\<open>Streaming\<close>; otherwise the request is
  accepted and a new session enters the table in \<^verbatim>\<open>Pending\<close>, with a fresh id and no
  output. The result is the answer to the caller and the table after the call.
\<close>

definition startGeneration ::
  "session list \<Rightarrow> string \<Rightarrow> (gateway_error + session) \<times> session list" where
  "startGeneration table conversationId =
     (if list_ex (\<lambda>s. ss_conversation s = conversationId \<and> inFlight s) table then
        (Inl SessionConflict, table)
      else
        (let s = \<lparr>ss_id = freshId table, ss_conversation = conversationId, ss_state = Pending,
                  ss_output = [], ss_cancel_flag = False\<rparr>
         in (Inr s, table @ [s])))"

text \<open>
  Modelled from the spec: an event delivered to the session with the given id,
  missing from the sources; the other sessions of the table are not touched.
\<close>

definition deliver :: "session list \<Rightarrow> nat \<Rightarrow> session_event \<Rightarrow> session list" where
  "deliver table sid ev = map (\<lambda>s. if ss_id s = sid then step s ev else s) table"

text \<open>
  Modelled from the spec: the requests the manager serves, and the table after a
  sequence of them, starting from any table.
\<close>

datatype manager_request = Start string | Event nat session_event

fun serve :: "session list \<Rightarrow> manager_request \<Rightarrow> session list" where
  "serve table (Start conversationId) = snd (startGeneration table conversationId)"
| "serve table (Event sid ev) = deliver table sid ev"

definition atMostOneInFlight :: "session list \<Rightarrow> bool" where
  "atMostOneInFlight table =
     (distinct (map ss_id table) \<and>
      distinct (map ss_conversation (filter inFlight table)))"

definition streamingTable :: "session list" where
  "streamingTable =
     foldl serve [] [Start ''b'', Event 1 AdapterInvoked, Event 1 (Token ''The''), Start ''c'']"

section \<open>Properties of the conversations store\<close>

text \<open>
  C9. A successful \<^verbatim>\<open>deleteConversation\<close> returns true, keeps exactly the
  conversations whose id differs from the given one, unchanged and in their
  original order, clears \<^verbatim>\<open>currentConversation\<close> when it has that id and leaves it
  as it was otherwise, and touches no other field of the store. When the API call
  reports failure or throws, the operation returns false and the store is the
  one it started from.
\<close>

theorem deleteConversation_frame:
  fixes apiDelete :: "string \<Rightarrow> bool \<Rightarrow> ('e, 'd api_response) attempt"
  shows
  "(\<forall>r. apiDelete cid permanent = Returned r \<and> resp_status r \<longrightarrow>
      (let (ok, st') = deleteConversation apiDelete cid permanent st in
         ok \<and>
         conversations st' = filter (\<lambda>c. conv_id c \<noteq> cid) (conversations st) \<and>
         (\<forall>c. c \<in> set (conversations st') \<longleftrightarrow> (c \<in> set (conversations st) \<and> conv_id c \<noteq> cid)) \<and>
         (case currentConversation st of
            None \<Rightarrow> currentConversation st' = None
          | Some cur \<Rightarrow>
              if conv_id cur = cid then currentConversation st' = None
              else currentConversation st' = Some cur) \<and>
         (currentConversation st' = None \<longleftrightarrow>
            (currentConversation st = None \<or>
             map_option conv_id (currentConversation st) = Some cid)) \<and>
         isLoading st' = isLoading st \<and> cs_error st' = cs_error st)) \<and>
   ((\<exists>r. apiDelete cid permanent = Returned r \<and> \<not> resp_status r) \<or>
    (\<exists>e. apiDelete cid permanent = Threw e) \<longrightarrow>
      deleteConversation apiDelete cid permanent st = (False, st))"
  by (auto simp: deleteConversation_def split: attempt.splits option.splits)

theorem deleteConversation_frame_witness:
  "(\<lambda>_ _. Returned okResponse :: (unit, unit api_response) attempt) ''b'' False = Returned okResponse \<and>
   resp_status okResponse \<and>
   deleteConversation (\<lambda>_ _. Returned okResponse :: (unit, unit api_response) attempt) ''b'' False
       exampleConversations =
     (True, exampleConversations
        \<lparr>conversations := [exampleConversation ''a'', exampleConversation ''c''],
         currentConversation := None\<rparr>) \<and>
   deleteConversation (\<lambda>_ _. Threw () :: (unit, unit api_response) attempt) ''b'' False
       exampleConversations = (False, exampleConversations)"
  using deleteConversation_frame
      [of "\<lambda>_ _. Returned okResponse :: (unit, unit api_response) attempt" "''b''" False
          exampleConversations]
    deleteConversation_frame
      [of "\<lambda>_ _. Threw () :: (unit, unit api_response) attempt" "''b''" False
          exampleConversations]
  by (simp add: deleteConversation_def okResponse_def exampleConversations_def
      exampleConversation_def)

section \<open>Properties of the models store\<close>

subsection \<open>The sort on a consistent comparator\<close>

lemma mset_insertSorted: "mset (insertSorted c x ys) = add_mset x (mset ys)"
  by (induction ys) auto

lemma set_insertSorted: "set (insertSorted c x ys) = insert x (set ys)"
  by (induction ys) auto

lemma sorted_insertSorted:
  assumes "\<forall>y\<in>set ys. (c x y < 0) = (f x < f y)" and "sorted (map f ys)"
  shows "sorted (map f (insertSorted c x ys))"
  using assms by (induction ys) (auto simp: set_insertSorted)

lemma filter_insertSorted:
  assumes "\<forall>y\<in>set ys. (c x y < 0) = (f x < f y)" and "sorted (map f ys)"
  shows "filter (\<lambda>y. k = f y) (insertSorted c x ys) =
         filter (\<lambda>y. k = f y) ys @ (if k = f x then [x] else [])"
  using assms
proof (induction ys)
  case Nil
  then show ?case by simp
next
  case (Cons y ys)
  show ?case
  proof (cases "f x < f y")
    case True
    then have "\<forall>z\<in>set (y # ys). f x < f z"
      using Cons.prems(2) by auto
    then have "filter (\<lambda>z. f x = f z) (y # ys) = []"
      by (auto simp: filter_empty_conv)
    with True Cons.prems(1) show ?thesis by auto
  next
    case False
    with Cons show ?thesis by auto
  qed
qed

lemma arraySort_snoc: "arraySort c (xs @ [x]) = insertSorted c x (arraySort c xs)"
  by (simp add: arraySort_def)

lemma arraySort_props:
  assumes "\<forall>a\<in>set xs. \<forall>b\<in>set xs. (c a b < 0) = (f a < f b)"
  shows "mset (arraySort c xs) = mset xs \<and> sorted (map f (arraySort c xs)) \<and>
         (\<forall>k. filter (\<lambda>y. k = f y) (arraySort c xs) = filter (\<lambda>y. k = f y) xs)"
  using assms
proof (induction xs rule: rev_induct)
  case Nil
  then show ?case by (simp add: arraySort_def)
next
  case (snoc x xs)
  then have ih: "mset (arraySort c xs) = mset xs" "sorted (map f (arraySort c xs))"
      "\<And>k. filter (\<lambda>y. k = f y) (arraySort c xs) = filter (\<lambda>y. k = f y) xs"
    by auto
  have "set (arraySort c xs) = set xs"
    using ih(1) by (rule mset_eq_setD)
  with snoc.prems have cons: "\<forall>y\<in>set (arraySort c xs). (c x y < 0) = (f x < f y)"
    by auto
  show ?case
    using sorted_insertSorted [where c = c and f = f, OF cons ih(2)]
      filter_insertSorted [where c = c and f = f, OF cons ih(2)] ih
    by (simp add: arraySort_snoc mset_insertSorted)
qed

lemma arraySort_sort_key:
  assumes "\<forall>a\<in>set xs. \<forall>b\<in>set xs. (c a b < 0) = (f a < f b)"
  shows "arraySort c xs = sort_key f xs"
  using arraySort_props [OF assms]
  by (intro properties_for_sort_key [symmetric]) auto

lemma compareModels_key:
  assumes "mdl_provider a = ''ollama'' \<or> mdl_provider b = ''ollama'' \<or> mdl_provider a = mdl_provider b"
  shows "(compareModels collate a b < 0) = (modelKey collate a < modelKey collate b)"
  using assms by (auto simp: compareModels_def modelKey_def localeCompare_def)

lemma modelKey_le: "(modelKey collate a \<le> modelKey collate b) = presentedBefore collate a b"
  by (auto simp: modelKey_def presentedBefore_def)

lemma sortModels_sort_key:
  assumes "oneOtherProvider ms"
  shows "sortModels collate ms = sort_key (modelKey collate) ms"
  unfolding sortModels_def
  using assms
  by (intro arraySort_sort_key) (auto simp: oneOtherProvider_def list_all_iff compareModels_key)

lemma loadedModels_sortModels: "loadedModels collate browser fetched st = sortModels collate fetched"
  by (simp add: loadedModels_def loadModels_def Let_def)

text \<open>
  C6 (as amended). After a successful \<^verbatim>\<open>loadModels\<close> on a list in which at most
  one provider other than \<^verbatim>\<open>ollama\<close> occurs, the presented list is a permutation
  of the fetched one, ordered with every available model before every unavailable
  one, then \<^verbatim>\<open>ollama\<close> before the other provider, then by display name; models
  that agree on all three keep their fetched order; and when no two models agree
  on all three, every permutation of the fetched list is presented in the same
  order, whatever the store and the environment were.
\<close>

theorem loadModels_order:
  assumes "oneOtherProvider fetched"
  shows "mset (loadedModels collate browser fetched st) = mset fetched \<and>
         sorted_wrt (presentedBefore collate) (loadedModels collate browser fetched st) \<and>
         (\<forall>k. filter (\<lambda>m. modelKey collate m = k) (loadedModels collate browser fetched st) =
              filter (\<lambda>m. modelKey collate m = k) fetched) \<and>
         (\<forall>other browser' st'.
            mset other = mset fetched \<and> distinct (map (modelKey collate) fetched) \<longrightarrow>
            loadedModels collate browser' other st' = loadedModels collate browser fetched st)"
proof -
  let ?f = "modelKey collate"
  have eq: "loadedModels collate browser fetched st = sort_key ?f fetched"
    by (simp add: loadedModels_sortModels sortModels_sort_key [OF assms])
  have srt: "sorted_wrt (presentedBefore collate) (sort_key ?f fetched)"
    using sorted_sort_key [of ?f fetched] by (simp add: sorted_map modelKey_le)
  have stable: "\<And>k. filter (\<lambda>m. ?f m = k) (sort_key ?f fetched) = filter (\<lambda>m. ?f m = k) fetched"
    by (rule sort_key_stable)
  have det: "loadedModels collate browser' other st' = sort_key ?f fetched"
    if "mset other = mset fetched" "distinct (map ?f fetched)" for other browser' st'
  proof -
    have s: "set other = set fetched" using that(1) by (rule mset_eq_setD)
    then have "oneOtherProvider other"
      using assms by (simp add: oneOtherProvider_def list_all_iff)
    then have "loadedModels collate browser' other st' = sort_key ?f other"
      by (simp add: loadedModels_sortModels sortModels_sort_key)
    moreover have "sort_key ?f other = sort_key ?f fetched"
      using that s by (intro sort_key_inj_key_eq) (auto simp: distinct_map)
    ultimately show ?thesis by simp
  qed
  show ?thesis using eq srt stable det by auto
qed

theorem loadModels_order_witness:
  "oneOtherProvider exampleFetched \<and>
   map mdl_id (loadedModels (\<lambda>s. s) True exampleFetched (exampleModels, Map.empty)) =
     [''mistral'', ''gpt-3.5'', ''gpt-4'', ''llama3''] \<and>
   sorted_wrt (presentedBefore (\<lambda>s. s))
     (loadedModels (\<lambda>s. s) True exampleFetched (exampleModels, Map.empty)) \<and>
   mset (rev exampleFetched) = mset exampleFetched \<and>
   distinct (map (modelKey (\<lambda>s. s)) exampleFetched) \<and>
   loadedModels (\<lambda>s. s) False (rev exampleFetched) (exampleModels, Map.empty) =
     loadedModels (\<lambda>s. s) True exampleFetched (exampleModels, Map.empty)"
proof -
  have h: "oneOtherProvider exampleFetched"
    by (simp add: oneOtherProvider_def exampleFetched_def exampleModel_def)
  have d: "distinct (map (modelKey (\<lambda>s. s)) exampleFetched)"
    by (simp add: modelKey_def exampleFetched_def exampleModel_def)
  have v: "map mdl_id (loadedModels (\<lambda>s. s) True exampleFetched (exampleModels, Map.empty)) =
     [''mistral'', ''gpt-3.5'', ''gpt-4'', ''llama3'']"
    by (simp add: loadedModels_def loadModels_def sortModels_def arraySort_def
        compareModels_def localeCompare_def exampleFetched_def exampleModel_def)
  have m: "mset (rev exampleFetched) = mset exampleFetched"
    by simp
  note t = loadModels_order [OF h, of "\<lambda>s. s" True "(exampleModels, Map.empty)"]
  from t have s: "sorted_wrt (presentedBefore (\<lambda>s. s))
      (loadedModels (\<lambda>s. s) True exampleFetched (exampleModels, Map.empty))"
    by (rule conjunct2 [THEN conjunct1])
  from t have "\<forall>other browser' st'.
      mset other = mset exampleFetched \<and> distinct (map (modelKey (\<lambda>s. s)) exampleFetched) \<longrightarrow>
      loadedModels (\<lambda>s. s) browser' other st' =
        loadedModels (\<lambda>s. s) True exampleFetched (exampleModels, Map.empty)"
    by (rule conjunct2 [THEN conjunct2, THEN conjunct2])
  with m d have e: "loadedModels (\<lambda>s. s) False (rev exampleFetched) (exampleModels, Map.empty) =
      loadedModels (\<lambda>s. s) True exampleFetched (exampleModels, Map.empty)"
    by blast
  from h v s m d e show ?thesis
    by (intro conjI)
qed

text \<open>
  The claim C6 as stated fails. Two available models of two providers other than
  \<^verbatim>\<open>ollama\<close> compare above each other in both directions, and the two orders of
  the same pair are presented differently. And two models with the same
  availability, provider and display name compare equal, so the stable sort
  presents them in the order they were fetched in.
\<close>

theorem loadModels_order_counterexample:
  "mset [exampleClaude, exampleGpt] = mset [exampleGpt, exampleClaude] \<and>
   compareModels (\<lambda>s. s) exampleClaude exampleGpt = 1 \<and>
   compareModels (\<lambda>s. s) exampleGpt exampleClaude = 1 \<and>
   loadedModels (\<lambda>s. s) True [exampleClaude, exampleGpt] (exampleModels, Map.empty) \<noteq>
   loadedModels (\<lambda>s. s) True [exampleGpt, exampleClaude] (exampleModels, Map.empty) \<and>
   compareModels (\<lambda>s. s) exampleLlama8b exampleLlama70b = 0 \<and>
   loadedModels (\<lambda>s. s) True [exampleLlama8b, exampleLlama70b] (exampleModels, Map.empty) =
     [exampleLlama8b, exampleLlama70b] \<and>
   loadedModels (\<lambda>s. s) True [exampleLlama70b, exampleLlama8b] (exampleModels, Map.empty) =
     [exampleLlama70b, exampleLlama8b] \<and>
   exampleLlama8b \<noteq> exampleLlama70b"
  by (simp add: loadedModels_def loadModels_def sortModels_def arraySort_def
      compareModels_def localeCompare_def exampleClaude_def exampleGpt_def exampleLlama8b_def
      exampleLlama70b_def exampleModel_def)

lemma find_Some_holds: "find P xs = Some x \<Longrightarrow> P x \<and> x \<in> set xs"
  by (induction xs) (auto split: if_splits)

text \<open>
  C10 (as amended). \<^verbatim>\<open>selectModel\<close> leaves the models list and the other fields of
  the store as they were. If some model of the store has the id, \<^verbatim>\<open>selectedModel\<close>
  becomes a model of the store with that id (the first one), and in the browser the
  id is written to \<^verbatim>\<open>selected_model_id\<close>; outside the browser nothing is written.
  If no model has the id, \<^verbatim>\<open>selectedModel\<close> becomes \<^verbatim>\<open>null\<close> and nothing is
  written.
\<close>

theorem selectModel_effect:
  "(let (st', ls') = selectModel browser mid (st, ls) in
      models st' = models st \<and> ms_isLoading st' = ms_isLoading st \<and>
      ms_error st' = ms_error st \<and>
      selectedModel st' = find (\<lambda>m. mdl_id m = mid) (models st) \<and>
      ((\<exists>m\<in>set (models st). mdl_id m = mid) \<longrightarrow>
         (\<exists>m\<in>set (models st). mdl_id m = mid \<and> selectedModel st' = Some m) \<and>
         ls' = (if browser then ls(''selected_model_id'' \<mapsto> mid) else ls)) \<and>
      ((\<forall>m\<in>set (models st). mdl_id m \<noteq> mid) \<longrightarrow>
         selectedModel st' = None \<and> ls' = ls))"
  by (auto simp: selectModel_def Let_def find_None_iff split: option.splits
      dest: find_Some_holds)

theorem selectModel_effect_witness:
  "(\<exists>m\<in>set (models exampleModels). mdl_id m = ''gpt-4'') \<and>
   selectModel True ''gpt-4'' (exampleModels, Map.empty) =
     (exampleModels\<lparr>selectedModel := Some (exampleModel ''gpt-4'' ''openai'' ''GPT-4'' True)\<rparr>,
      [''selected_model_id'' \<mapsto> ''gpt-4'']) \<and>
   list_all (\<lambda>m. mdl_id m \<noteq> ''gpt-ghost'') (models exampleModels) \<and>
   selectModel True ''gpt-ghost'' (exampleModels, Map.empty) =
     (exampleModels\<lparr>selectedModel := None\<rparr>, Map.empty)"
  using selectModel_effect [of True "''gpt-4''" exampleModels Map.empty]
    selectModel_effect [of True "''gpt-ghost''" exampleModels Map.empty]
  by (simp add: selectModel_def exampleModels_def exampleModel_def)

text \<open>
  The claim as stated fails outside the browser: the model is found and selected,
  and \<^verbatim>\<open>selected_model_id\<close> is not written.
\<close>

theorem selectModel_persist_counterexample:
  "(\<exists>m\<in>set (models exampleModels). mdl_id m = ''gpt-4'') \<and>
   selectedModel (fst (selectModel False ''gpt-4'' (exampleModels, Map.empty))) =
     Some (exampleModel ''gpt-4'' ''openai'' ''GPT-4'' True) \<and>
   snd (selectModel False ''gpt-4'' (exampleModels, Map.empty)) ''selected_model_id'' = None"
  by (simp add: selectModel_def exampleModels_def exampleModel_def)

section \<open>Properties of the API client\<close>

text \<open>\<^verbatim>\<open>response.data.data.token\<close>; \<open>None\<close> when the read raises.\<close>

definition tokenOf :: "js_value \<Rightarrow> js_value option" where
  "tokenOf body =
     (case readProperty body ''data'' of
        None \<Rightarrow> None
      | Some inner \<Rightarrow> readProperty inner ''token'')"

lemma unknownError_failure:
  "tagged (unknownError message) \<and>
   readOptional (unknownError message) ''status'' = JsBoolean False \<and>
   readOptional (readOptional (unknownError message) ''error'') ''code'' =
     JsString ''unknown_error'' \<and>
   (\<exists>m. m \<noteq> [] \<and>
        readOptional (readOptional (unknownError message) ''error'') ''message'' = JsString m)"
  by (simp add: unknownError_def tagged_def readOptional_def split: option.splits)

lemma authenticate_settles:
  "\<exists>r. fst (authenticate stringOf typeErrorMessage call localStorage) = Returned r"
  by (auto simp: authenticate_def Let_def split: attempt.splits option.splits)

lemma login_register_settle:
  "(\<exists>r. fst (login stringOf typeErrorMessage post email password localStorage) = Returned r) \<and>
   (\<exists>r. fst (register stringOf typeErrorMessage post' name email password localStorage) =
      Returned r)"
  by (simp add: login_def register_def authenticate_settles)

lemma createConversation_settles: "\<exists>r. createConversation post data = Returned r"
  by (simp add: createConversation_def request_def split: attempt.splits)

text \<open>
  C8 (as amended). An HTTP method of the client settles to a value and never to
  an exception. A resolved call gives the response body as it was received; in
  \<^verbatim>\<open>login\<close> and \<^verbatim>\<open>register\<close> that is after the token read from the body has been
  stored, and a body from which the token cannot be read gives the failure with
  code \<^verbatim>\<open>unknown_error\<close> instead, with nothing stored. A rejected call whose response
  has a truthy body gives that body as it was received, whatever it is. A rejected
  call without such a body gives a tagged failure: \<^verbatim>\<open>status\<close> false, the error code
  \<^verbatim>\<open>unknown_error\<close> and a non-empty message. \<^verbatim>\<open>sendChatMessage\<close> is the shared body
  on the POST to \<^verbatim>\<open>/chat/<id>\<close> with \<^verbatim>\<open>stream: false\<close>. A streaming request
  returns the stream id.
\<close>

theorem request_result:
  "(\<exists>r. request call = Returned r \<and>
        (case call of
           Returned response \<Rightarrow> r = ax_data response
         | Threw error \<Rightarrow>
             (case responseBody error of
                Some body \<Rightarrow> r = body
              | None \<Rightarrow>
                  tagged r \<and> readOptional r ''status'' = JsBoolean False \<and>
                  readOptional (readOptional r ''error'') ''code'' = JsString ''unknown_error'' \<and>
                  (\<exists>m. m \<noteq> [] \<and>
                       readOptional (readOptional r ''error'') ''message'' = JsString m)))) \<and>
   sendChatMessage post cid message parameters =
     request (post (''/chat/'' @ cid)
        \<lparr>cb_message = message, cb_parameters = parameters, cb_stream = False\<rparr>) \<and>
   (\<exists>r. fst (authenticate stringOf typeErrorMessage call localStorage) = Returned r \<and>
        (case call of
           Threw error \<Rightarrow>
             Returned r = request call \<and>
             snd (authenticate stringOf typeErrorMessage call localStorage) = localStorage
         | Returned response \<Rightarrow>
             (case tokenOf (ax_data response) of
                Some token \<Rightarrow>
                  r = ax_data response \<and>
                  snd (authenticate stringOf typeErrorMessage call localStorage) =
                    localStorage(''auth_token'' \<mapsto> stringOf token)
              | None \<Rightarrow>
                  r = unknownError (Some typeErrorMessage) \<and>
                  snd (authenticate stringOf typeErrorMessage call localStorage) = localStorage))) \<and>
   fst (streamChatResponse clk suffix cid message parameters sock) = streamId clk suffix"
proof -
  have a: "\<exists>r. request call = Returned r \<and>
        (case call of
           Returned response \<Rightarrow> r = ax_data response
         | Threw error \<Rightarrow>
             (case responseBody error of
                Some body \<Rightarrow> r = body
              | None \<Rightarrow>
                  tagged r \<and> readOptional r ''status'' = JsBoolean False \<and>
                  readOptional (readOptional r ''error'') ''code'' = JsString ''unknown_error'' \<and>
                  (\<exists>m. m \<noteq> [] \<and>
                       readOptional (readOptional r ''error'') ''message'' = JsString m)))"
  proof (cases call)
    case (Returned response)
    then show ?thesis by (simp add: request_def)
  next
    case (Threw error)
    show ?thesis
    proof (cases "responseBody error")
      case None
      then have "handleError error = unknownError (ax_message error)"
        by (auto simp: handleError_def responseBody_def split: option.splits if_splits)
      with Threw None unknownError_failure [of "ax_message error"] show ?thesis
        by (simp add: request_def)
    next
      case (Some body)
      then have "handleError error = body"
        by (auto simp: handleError_def responseBody_def split: option.splits if_splits)
      with Threw Some show ?thesis by (simp add: request_def)
    qed
  qed
  have b: "sendChatMessage post cid message parameters =
     request (post (''/chat/'' @ cid)
        \<lparr>cb_message = message, cb_parameters = parameters, cb_stream = False\<rparr>)"
    by (simp add: sendChatMessage_def)
  have c: "\<exists>r. fst (authenticate stringOf typeErrorMessage call localStorage) = Returned r \<and>
        (case call of
           Threw error \<Rightarrow>
             Returned r = request call \<and>
             snd (authenticate stringOf typeErrorMessage call localStorage) = localStorage
         | Returned response \<Rightarrow>
             (case tokenOf (ax_data response) of
                Some token \<Rightarrow>
                  r = ax_data response \<and>
                  snd (authenticate stringOf typeErrorMessage call localStorage) =
                    localStorage(''auth_token'' \<mapsto> stringOf token)
              | None \<Rightarrow>
                  r = unknownError (Some typeErrorMessage) \<and>
                  snd (authenticate stringOf typeErrorMessage call localStorage) = localStorage))"
    by (cases call)
      (auto simp: authenticate_def request_def tokenOf_def handleError_def Let_def
        split: option.splits)
  have d: "fst (streamChatResponse clk suffix cid message parameters sock) = streamId clk suffix"
    by (simp add: streamChatResponse_def)
  from a b c d show ?thesis by (intro conjI)
qed

theorem request_result_witness:
  "sendChatMessage (noPost :: string \<Rightarrow> unit chat_body \<Rightarrow> axios_call) ''b'' ''hi'' None =
     Returned (unknownError (Some ''Network Error'')) \<and>
   responseBody \<lparr>ax_message = Some ''Network Error'', ax_response = None\<rparr> = None \<and>
   tagged (unknownError (Some ''Network Error'')) \<and>
   readOptional (readOptional (unknownError (Some ''Network Error'')) ''error'') ''code'' =
     JsString ''unknown_error'' \<and>
   readOptional (readOptional (unknownError (Some ''Network Error'')) ''error'') ''message'' =
     JsString ''Network Error''"
  using request_result
    [of "noPost ''/chat/b'' \<lparr>cb_message = ''hi'', cb_parameters = None :: unit option,
           cb_stream = False\<rparr>"
        "noPost :: string \<Rightarrow> unit chat_body \<Rightarrow> axios_call" "''b''" "''hi''" None]
  by (simp add: request_def handleError_def responseBody_def noPost_def unknownError_def
      tagged_def readOptional_def)

section \<open>Properties of the chat page\<close>

lemma receive_tokens:
  assumes "count_list (stream_listeners (snd w)) sid = 1"
  shows "receiveAll sid (map TokenEvent tokens) w =
         ((fst w)\<lparr>streamedMessage := streamedMessage (fst w) @ concat tokens\<rparr>, snd w)"
  using assms
proof (induction tokens arbitrary: w)
  case Nil
  then show ?case by (simp add: receiveAll_def)
next
  case (Cons t ts)
  have step: "receive sid (TokenEvent t) w =
      ((fst w)\<lparr>streamedMessage := streamedMessage (fst w) @ t\<rparr>, snd w)"
    using Cons.prems by (simp add: receive_def onToken_def Let_def)
  have "receiveAll sid (map TokenEvent (t # ts)) w =
      receiveAll sid (map TokenEvent ts) (receive sid (TokenEvent t) w)"
    by (simp add: receiveAll_def)
  also have "\<dots> = ((fst w)\<lparr>streamedMessage := streamedMessage (fst w) @ concat (t # ts)\<rparr>, snd w)"
    using Cons.prems by (simp add: step Cons.IH)
  finally show ?case .
qed

lemma receiveAll_append: "receiveAll sid (xs @ ys) w = receiveAll sid ys (receiveAll sid xs w)"
  by (simp add: receiveAll_def)

lemma receive_done:
  assumes "count_list (stream_listeners (snd w)) sid = 1"
  shows "receiveAll sid [DoneEvent clk] w =
         (onComplete clk (fst w),
          (snd w)\<lparr>stream_listeners := removeAll sid (stream_listeners (snd w))\<rparr>)"
  using assms by (simp add: receiveAll_def receive_def Let_def)

lemma sendToModel_stream:
  assumes "d_stream detail" and "conversation pg = Some conv"
  shows "sendToModel apiSend clk suffix detail (pg, sock) =
         (pg\<lparr>messages := messages pg @
                 [\<lparr>msg_id = ''temp-'' @ decimal (now_ms clk), msg_role = User,
                   msg_content = d_message detail, msg_created_at = now_iso clk\<rparr>],
              streaming := True, streamedMessage := [],
              activeSocketId := Some (streamId clk suffix)\<rparr>,
          sock\<lparr>stream_listeners := stream_listeners sock @ [streamId clk suffix],
               emitted := emitted sock @
                 [ChatStream (conv_id conv) (d_message detail) (d_parameters detail)
                    (streamId clk suffix)]\<rparr>)"
  using assms by (simp add: sendToModel_def streamChatResponse_def Let_def)

lemma handleSendMessage_stream:
  assumes "\<not> blank (d_message detail)" and "d_stream detail"
    and "conversationForSend apiCreate detail pg = Some conv"
  shows "handleSendMessage apiCreate apiSend clk suffix detail (pg, sock) =
         (pg\<lparr>conversation := Some conv,
              messages := messages pg @
                 [\<lparr>msg_id = ''temp-'' @ decimal (now_ms clk), msg_role = User,
                   msg_content = d_message detail, msg_created_at = now_iso clk\<rparr>],
              streaming := True, streamedMessage := [],
              activeSocketId := Some (streamId clk suffix)\<rparr>,
          sock\<lparr>stream_listeners := stream_listeners sock @ [streamId clk suffix],
               emitted := emitted sock @
                 [ChatStream (conv_id conv) (d_message detail) (d_parameters detail)
                    (streamId clk suffix)]\<rparr>)"
proof (cases "isNewChat pg")
  case True
  with assms(3) obtain draft response where
    d: "conversation pg = Some draft" and
    r: "apiCreate (creationRequest (d_message detail) draft) = Returned response" and
    ok: "resp_status response" and c: "resp_data response = Some conv"
    by (auto simp: conversationForSend_def split: option.splits attempt.splits if_splits)
  have "handleSendMessage apiCreate apiSend clk suffix detail (pg, sock) =
      sendToModel apiSend clk suffix detail (pg\<lparr>conversation := Some conv\<rparr>, sock)"
    using assms(1) True by (simp add: handleSendMessage_def afterCreate_def Let_def d r ok c)
  then show ?thesis
    using sendToModel_stream [OF assms(2), of "pg\<lparr>conversation := Some conv\<rparr>" conv apiSend clk
        suffix sock]
    by simp
next
  case False
  with assms(3) have c: "conversation pg = Some conv"
    by (simp add: conversationForSend_def)
  then have same: "pg\<lparr>conversation := Some conv\<rparr> = pg"
    by (cases pg) simp
  have "handleSendMessage apiCreate apiSend clk suffix detail (pg, sock) =
      sendToModel apiSend clk suffix detail (pg, sock)"
    using assms(1) False by (simp add: handleSendMessage_def Let_def)
  with sendToModel_stream [OF assms(2) c, of apiSend clk suffix sock] same
  show ?thesis by (metis (no_types))
qed

text \<open>
  C1. A streaming send that has a conversation to go to opens a stream: \<^verbatim>\<open>streaming\<close> is
  set, the accumulated output is empty and the stream id is the active one. When
  the tokens of the stream arrive and then \<^verbatim>\<open>done\<close>, the accumulated output after
  the first \<open>n\<close> tokens is their concatenation in the order of arrival, and at
  \<^verbatim>\<open>done\<close> the page gains one assistant message whose content is the concatenation
  of all tokens, with the stream closed. The stream id is fresh: no listener of an
  earlier stream is registered under it.
\<close>

theorem streamed_tokens_in_order:
  assumes "\<not> blank (d_message detail)" and "d_stream detail"
    and "conversationForSend apiCreate detail pg = Some conv"
    and "streamId clk suffix \<notin> set (stream_listeners sock)"
  shows "(let sid = streamId clk suffix;
              opened = handleSendMessage apiCreate apiSend clk suffix detail (pg, sock);
              completed = receiveAll sid (map TokenEvent tokens @ [DoneEvent done_clk]) opened
          in streaming (fst opened) \<and> streamedMessage (fst opened) = [] \<and>
             activeSocketId (fst opened) = Some sid \<and>
             (\<forall>n\<le>length tokens.
                streamedMessage (fst (receiveAll sid (map TokenEvent (take n tokens)) opened)) =
                  concat (take n tokens)) \<and>
             messages (fst completed) =
               messages (fst opened) @
               [\<lparr>msg_id = ''stream-'' @ decimal (now_ms done_clk), msg_role = Assistant,
                 msg_content = concat tokens, msg_created_at = now_iso done_clk\<rparr>] \<and>
             \<not> streaming (fst completed) \<and> streamedMessage (fst completed) = [] \<and>
             activeSocketId (fst completed) = None)"
proof -
  let ?sid = "streamId clk suffix"
  let ?opened = "handleSendMessage apiCreate apiSend clk suffix detail (pg, sock)"
  note eq = handleSendMessage_stream [OF assms(1-3), of apiSend clk suffix sock]
  have one: "count_list (stream_listeners (snd ?opened)) ?sid = 1"
    using assms(4) by (simp add: eq)
  have toks: "receiveAll ?sid (map TokenEvent ts) ?opened =
      ((fst ?opened)\<lparr>streamedMessage := concat ts\<rparr>, snd ?opened)" for ts
    using receive_tokens [OF one, of ts] by (simp add: eq)
  have fin: "receiveAll ?sid (map TokenEvent tokens @ [DoneEvent done_clk]) ?opened =
      (onComplete done_clk ((fst ?opened)\<lparr>streamedMessage := concat tokens\<rparr>),
       (snd ?opened)\<lparr>stream_listeners := removeAll ?sid (stream_listeners (snd ?opened))\<rparr>)"
    using one by (simp add: receiveAll_append toks receive_done)
  show ?thesis
    unfolding Let_def fin toks
    by (simp add: eq onComplete_def)
qed

theorem streamed_tokens_in_order_witness:
  "\<not> blank (d_message exampleDetail) \<and> d_stream exampleDetail \<and>
   conversationForSend offlineCreate exampleDetail examplePage = Some (exampleConversation ''b'') \<and>
   streamId (exampleClock 1) ''k3x9q2a'' \<notin> set (stream_listeners exampleSocket) \<and>
   map msg_content (messages (fst (receiveAll (streamId (exampleClock 1) ''k3x9q2a'')
      (map TokenEvent [''The'', '' sky'', '' is'', '' blue''] @ [DoneEvent (exampleClock 2)])
      (handleSendMessage offlineCreate offlineSend (exampleClock 1) ''k3x9q2a'' exampleDetail
         (examplePage, exampleSocket))))) =
     [''What colour is the sky?'', ''The sky is blue'']"
proof -
  have h1: "\<not> blank (d_message exampleDetail)"
    by (simp add: blank_def isWhiteSpace_def exampleDetail_def)
  have h2: "d_stream exampleDetail"
    by (simp add: exampleDetail_def)
  have h3: "conversationForSend offlineCreate exampleDetail examplePage =
      Some (exampleConversation ''b'')"
    by (simp add: conversationForSend_def isNewChat_def examplePage_def)
  have h4: "streamId (exampleClock 1) ''k3x9q2a'' \<notin> set (stream_listeners exampleSocket)"
    by (simp add: exampleSocket_def)
  have m: "map msg_content (messages (fst (handleSendMessage offlineCreate offlineSend (exampleClock 1)
      ''k3x9q2a'' exampleDetail (examplePage, exampleSocket)))) = [''What colour is the sky?'']"
    unfolding handleSendMessage_stream [OF h1 h2 h3]
    by (simp add: examplePage_def exampleDetail_def)
  from streamed_tokens_in_order [OF h1 h2 h3 h4, of offlineSend
      "[''The'', '' sky'', '' is'', '' blue'']" "exampleClock 2"]
  have "map msg_content (messages (fst (receiveAll (streamId (exampleClock 1) ''k3x9q2a'')
      (map TokenEvent [''The'', '' sky'', '' is'', '' blue''] @ [DoneEvent (exampleClock 2)])
      (handleSendMessage offlineCreate offlineSend (exampleClock 1) ''k3x9q2a'' exampleDetail
         (examplePage, exampleSocket))))) =
     [''What colour is the sky?'', ''The sky is blue'']"
    unfolding Let_def using m by simp
  with h1 h2 h3 h4 show ?thesis by (intro conjI)
qed

lemma receive_error:
  assumes "count_list (stream_listeners (snd w)) sid = 1"
  shows "receiveAll sid [ErrorEvent e clk] w =
         (onComplete clk (fst w),
          (snd w)\<lparr>stream_listeners := removeAll sid (stream_listeners (snd w))\<rparr>)"
  using assms by (simp add: receiveAll_def receive_def Let_def)

text \<open>
  The claim C8 as stated fails twice. A failed call that is answered by a proxy's
  error page carries a body that is no structured error payload; \<^verbatim>\<open>handleError\<close>
  returns that page as it is, a string without a status flag, an error code or a
  message, and not the \<^verbatim>\<open>unknown_error\<close> failure. And a streaming request returns
  the stream id: a stream that breaks off with \<^verbatim>\<open>error\<close> leaves the caller exactly
  where a stream that ends with \<^verbatim>\<open>done\<close> does, the partial output added as an
  assistant message and no error set.
\<close>

theorem untagged_result_counterexample:
  "sendChatMessage (proxyPost :: string \<Rightarrow> unit chat_body \<Rightarrow> axios_call) ''b'' ''hi'' None =
     Returned (JsString ''<html>502 Bad Gateway</html>'') \<and>
   \<not> tagged (JsString ''<html>502 Bad Gateway</html>'') \<and>
   readOptional (JsString ''<html>502 Bad Gateway</html>'') ''error'' = JsUndefined \<and>
   receiveAll (streamId (exampleClock 1) ''k3x9q2a'')
      [TokenEvent ''The'', ErrorEvent ''provider down'' (exampleClock 2)]
      (handleSendMessage offlineCreate offlineSend (exampleClock 1) ''k3x9q2a'' exampleDetail
         (examplePage, exampleSocket)) =
   receiveAll (streamId (exampleClock 1) ''k3x9q2a'')
      [TokenEvent ''The'', DoneEvent (exampleClock 2)]
      (handleSendMessage offlineCreate offlineSend (exampleClock 1) ''k3x9q2a'' exampleDetail
         (examplePage, exampleSocket)) \<and>
   pg_error (fst (receiveAll (streamId (exampleClock 1) ''k3x9q2a'')
      [TokenEvent ''The'', ErrorEvent ''provider down'' (exampleClock 2)]
      (handleSendMessage offlineCreate offlineSend (exampleClock 1) ''k3x9q2a'' exampleDetail
         (examplePage, exampleSocket)))) = None \<and>
   map msg_content (messages (fst (receiveAll (streamId (exampleClock 1) ''k3x9q2a'')
      [TokenEvent ''The'', ErrorEvent ''provider down'' (exampleClock 2)]
      (handleSendMessage offlineCreate offlineSend (exampleClock 1) ''k3x9q2a'' exampleDetail
         (examplePage, exampleSocket))))) = [''What colour is the sky?'', ''The'']"
  by (simp add: sendChatMessage_def request_def handleError_def proxyPost_def tagged_def
      readOptional_def receiveAll_def receive_def handleSendMessage_def sendToModel_def
      streamChatResponse_def onToken_def onComplete_def Let_def blank_def isWhiteSpace_def
      isNewChat_def examplePage_def exampleDetail_def exampleSocket_def)

section \<open>Properties of the gateway core\<close>

subsection \<open>Provider registry\<close>

text \<open>
  C5. \<^verbatim>\<open>selectAdapter\<close> returns an adapter only if that adapter is in the registry,
  declares exactly the requested id and is healthy; it fails with
  \<^verbatim>\<open>ModelNotFound\<close> exactly when no adapter declares the id, and with
  \<^verbatim>\<open>ModelUnavailable\<close> when the id is declared and every adapter declaring it is
  unhealthy; it fails in no other way and a failure carries no adapter. The witness
  is the spec's example \<^verbatim>\<open>gpt-ghost\<close>.
\<close>

theorem selectAdapter_exact:
  "(\<forall>a. selectAdapter registry m = Inr a \<longrightarrow>
        a \<in> set registry \<and> m \<in> set (ad_catalog a) \<and> ad_healthy a) \<and>
   ((\<forall>a\<in>set registry. m \<notin> set (ad_catalog a)) \<longleftrightarrow>
        selectAdapter registry m = Inl ModelNotFound) \<and>
   ((\<exists>a\<in>set registry. m \<in> set (ad_catalog a)) \<and>
    (\<forall>a\<in>set registry. m \<in> set (ad_catalog a) \<longrightarrow> \<not> ad_healthy a) \<longrightarrow>
        selectAdapter registry m = Inl ModelUnavailable) \<and>
   (selectAdapter registry m = Inl ModelUnavailable \<longrightarrow>
        (\<exists>a\<in>set registry. m \<in> set (ad_catalog a) \<and> \<not> ad_healthy a)) \<and>
   (\<forall>e. selectAdapter registry m = Inl e \<longrightarrow> e = ModelNotFound \<or> e = ModelUnavailable)"
proof (cases "find (\<lambda>a. m \<in> set (ad_catalog a)) registry")
  case None
  then have none: "\<forall>a\<in>set registry. m \<notin> set (ad_catalog a)"
    by (simp add: find_None_iff)
  have "selectAdapter registry m = Inl ModelNotFound"
    by (simp add: selectAdapter_def None)
  with none show ?thesis by simp
next
  case (Some a)
  then have a: "a \<in> set registry" "m \<in> set (ad_catalog a)"
    by (auto dest: find_Some_holds)
  show ?thesis
  proof (cases "ad_healthy a")
    case True
    then have "selectAdapter registry m = Inr a"
      by (simp add: selectAdapter_def Some)
    with a True show ?thesis by auto
  next
    case False
    then have "selectAdapter registry m = Inl ModelUnavailable"
      by (simp add: selectAdapter_def Some)
    with a False show ?thesis by auto
  qed
qed

theorem selectAdapter_exact_witness:
  "list_all (\<lambda>a. ''gpt-ghost'' \<notin> set (ad_catalog a)) exampleRegistry \<and>
   selectAdapter exampleRegistry ''gpt-ghost'' = Inl ModelNotFound \<and>
   selectAdapter exampleRegistry ''gpt-4'' = Inl ModelUnavailable \<and>
   selectAdapter exampleRegistry ''llama3'' =
     Inr \<lparr>ad_provider = ''ollama'', ad_catalog = [''llama3'', ''mistral''], ad_healthy = True\<rparr>"
proof -
  have h: "list_all (\<lambda>a. ''gpt-ghost'' \<notin> set (ad_catalog a)) exampleRegistry"
    by (simp add: exampleRegistry_def)
  then have "\<forall>a\<in>set exampleRegistry. ''gpt-ghost'' \<notin> set (ad_catalog a)"
    by (simp add: list_all_iff)
  with selectAdapter_exact [of exampleRegistry "''gpt-ghost''"]
  have g: "selectAdapter exampleRegistry ''gpt-ghost'' = Inl ModelNotFound"
    by blast
  have u: "selectAdapter exampleRegistry ''gpt-4'' = Inl ModelUnavailable"
    by (simp add: selectAdapter_def exampleRegistry_def)
  have l: "selectAdapter exampleRegistry ''llama3'' =
     Inr \<lparr>ad_provider = ''ollama'', ad_catalog = [''llama3'', ''mistral''], ad_healthy = True\<rparr>"
    by (simp add: selectAdapter_def exampleRegistry_def)
  from h g u l show ?thesis by (intro conjI)
qed

subsection \<open>Retrieval\<close>

text \<open>
  C3. The sequence \<^verbatim>\<open>retrieve\<close> returns has at most \<open>top_k\<close> elements, is ordered
  by non-increasing similarity to the query, holds only stored chunks whose
  similarity reaches the threshold, and is empty when every stored chunk is below
  the threshold.
\<close>

theorem retrieve_ranked:
  "(let r = retrieve embedder store query top_k threshold
    in length r \<le> top_k \<and>
       sorted_wrt (\<lambda>a b. similarity embedder query b \<le> similarity embedder query a) r \<and>
       (\<forall>c\<in>set r. c \<in> set store \<and> threshold \<le> similarity embedder query c) \<and>
       ((\<forall>c\<in>set store. similarity embedder query c < threshold) \<longrightarrow> r = []))"
proof -
  let ?sim = "similarity embedder query"
  let ?kept = "filter (\<lambda>c. threshold \<le> ?sim c) store"
  let ?ranked = "sort_key (\<lambda>c. - ?sim c) ?kept"
  have "sorted (map (\<lambda>c. - ?sim c) ?ranked)"
    by (rule sorted_sort_key)
  then have "sorted_wrt (\<lambda>a b. ?sim b \<le> ?sim a) ?ranked"
    by (simp add: sorted_map)
  then have srt: "sorted_wrt (\<lambda>a b. ?sim b \<le> ?sim a) (take top_k ?ranked)"
    by (rule sorted_wrt_take)
  have "set (take top_k ?ranked) \<subseteq> set ?ranked"
    by (rule set_take_subset)
  then have mem: "\<forall>c\<in>set (take top_k ?ranked). c \<in> set store \<and> threshold \<le> ?sim c"
    by auto
  have emp: "(\<forall>c\<in>set store. ?sim c < threshold) \<longrightarrow> take top_k ?ranked = []"
  proof
    assume "\<forall>c\<in>set store. ?sim c < threshold"
    then have "?kept = []" by (auto simp: filter_empty_conv)
    then show "take top_k ?ranked = []" by simp
  qed
  have len: "length (take top_k ?ranked) \<le> top_k"
    by simp
  show ?thesis
    unfolding Let_def retrieve_def using len srt mem emp by (intro conjI)
qed

theorem retrieve_ranked_witness:
  "map rc_text (retrieve exampleEmbed exampleStore ''sky'' 3 0) =
     [''the sky is blue'', ''grass is green''] \<and>
   map rc_text (retrieve exampleEmbed exampleStore ''sky'' 1 0) = [''the sky is blue''] \<and>
   list_all (\<lambda>c. similarity exampleEmbed ''sky'' c < 2) exampleStore \<and>
   retrieve exampleEmbed exampleStore ''sky'' 3 2 = []"
proof -
  have a: "map rc_text (retrieve exampleEmbed exampleStore ''sky'' 3 0) =
     [''the sky is blue'', ''grass is green'']"
    by (simp add: retrieve_def similarity_def cosine_def dot_def exampleEmbed_def exampleStore_def)
  have b: "map rc_text (retrieve exampleEmbed exampleStore ''sky'' 1 0) = [''the sky is blue'']"
    by (simp add: retrieve_def similarity_def cosine_def dot_def exampleEmbed_def exampleStore_def)
  have h: "list_all (\<lambda>c. similarity exampleEmbed ''sky'' c < 2) exampleStore"
    by (simp add: similarity_def cosine_def dot_def exampleEmbed_def exampleStore_def)
  then have "\<forall>c\<in>set exampleStore. similarity exampleEmbed ''sky'' c < 2"
    by (simp add: list_all_iff)
  with retrieve_ranked [of exampleEmbed exampleStore "''sky''" 3 2]
  have e: "retrieve exampleEmbed exampleStore ''sky'' 3 2 = []"
    unfolding Let_def by blast
  from a b h e show ?thesis by (intro conjI)
qed

subsection \<open>Sessions\<close>

text \<open>
  What the client contributes to cancellation: \<^verbatim>\<open>onDestroy\<close> sends the request
  for the active stream and nothing when no stream is active, as after
  \<^verbatim>\<open>onComplete\<close>; it changes no variable of the page, so a repeated call sends
  the same request again.
\<close>

lemma onDestroy_active:
  "activeSocketId pg = Some sid \<Longrightarrow> sid \<noteq> [] \<Longrightarrow>
   onDestroy pg sock = sock\<lparr>emitted := emitted sock @ [ChatCancel (routeId pg) sid]\<rparr>"
  by (simp add: onDestroy_def)

lemma onDestroy_idle: "activeSocketId pg = None \<Longrightarrow> onDestroy pg sock = sock"
  by (simp add: onDestroy_def)

lemma onDestroy_after_onComplete: "onDestroy (onComplete clk pg) sock = sock"
  by (simp add: onDestroy_def onComplete_def)

lemma step_terminal: "terminal (ss_state s) \<Longrightarrow> step s ev = s"
  by (auto simp: terminal_def step_def)

lemma run_terminal: "terminal (ss_state s) \<Longrightarrow> run s evs = s"
  unfolding run_def by (induction evs) (simp_all add: step_terminal)

lemma cancel_terminal:
  "ss_state s \<noteq> Completed \<Longrightarrow> terminal (ss_state (cancel s)) \<and> ss_state (cancel s) \<noteq> Completed"
  by (cases "ss_state s") (simp_all add: cancel_def step_def terminal_def)

text \<open>
  C4. Cancelling a session that is not completed leaves it cancelled or failed:
  no later event moves it, so it never completes, and cancelling again changes
  nothing. A pending or streaming session becomes cancelled with its output kept.
  On a session already in a terminal state the request is a no-op.
\<close>

theorem cancel_never_completes:
  "(ss_state s \<noteq> Completed \<longrightarrow>
      (ss_state (cancel s) = Cancelled \<or> ss_state (cancel s) = Failed) \<and>
      (\<forall>evs. run (cancel s) evs = cancel s) \<and>
      cancel (cancel s) = cancel s) \<and>
   (ss_state s = Pending \<or> ss_state s = Streaming \<longrightarrow>
      ss_state (cancel s) = Cancelled \<and> ss_output (cancel s) = ss_output s) \<and>
   (terminal (ss_state s) \<longrightarrow> cancel s = s)"
proof (intro conjI impI)
  assume a: "ss_state s \<noteq> Completed"
  note t = cancel_terminal [OF a]
  from t show "ss_state (cancel s) = Cancelled \<or> ss_state (cancel s) = Failed"
    by (auto simp: terminal_def)
  from t show "\<forall>evs. run (cancel s) evs = cancel s"
    by (simp add: run_terminal)
  from t show "cancel (cancel s) = cancel s"
    using step_terminal [of "cancel s" CancelRequest] by (simp add: cancel_def)
next
  assume "ss_state s = Pending \<or> ss_state s = Streaming"
  then show "ss_state (cancel s) = Cancelled" "ss_output (cancel s) = ss_output s"
    by (auto simp: cancel_def step_def)
next
  assume "terminal (ss_state s)"
  then show "cancel s = s"
    by (simp add: cancel_def step_terminal)
qed

theorem cancel_never_completes_witness:
  "ss_state (exampleSession Streaming) \<noteq> Completed \<and>
   ss_state (cancel (exampleSession Streaming)) = Cancelled \<and>
   run (cancel (exampleSession Streaming)) [Token '' is'', EndOfStream] =
     cancel (exampleSession Streaming) \<and>
   cancel (cancel (exampleSession Streaming)) = cancel (exampleSession Streaming) \<and>
   terminal (ss_state (exampleSession Failed)) \<and>
   cancel (exampleSession Failed) = exampleSession Failed"
  using cancel_never_completes [of "exampleSession Streaming"]
    cancel_never_completes [of "exampleSession Failed"]
  by (simp add: exampleSession_def terminal_def cancel_def run_def step_def)

text \<open>
  What the client contributes to the rule of one generation per conversation: the
  chat input is disabled while \<^verbatim>\<open>streaming\<close> is set. The page sets the flag in the
  send itself (on a new chat only once the creation call has settled) and clears it
  at the first \<^verbatim>\<open>done\<close> or \<^verbatim>\<open>error\<close>; it sends \<^verbatim>\<open>chat:stream\<close> and reads no
  answer to it. Whether a second generation is rejected is decided by the session
  manager.
\<close>

lemma chatInputDisabled_streaming: "streaming pg \<Longrightarrow> chatInputDisabled pg selected"
  by (simp add: chatInputDisabled_def)

lemma fold_max_bounds: "(a::nat) \<le> fold max xs a \<and> (\<forall>x\<in>set xs. x \<le> fold max xs a)"
proof (induction xs arbitrary: a)
  case Nil
  show ?case by simp
next
  case (Cons y ys)
  from Cons.IH [of "max y a"] show ?case
    by (auto simp: max_def split: if_splits)
qed

lemma freshId_above: "s \<in> set table \<Longrightarrow> ss_id s < freshId table"
  using fold_max_bounds [of 0 "map ss_id table"]
  by (auto simp: freshId_def less_Suc_eq_le)

lemma step_keeps_identity:
  "ss_id (step s ev) = ss_id s \<and> ss_conversation (step s ev) = ss_conversation s"
  by (cases "ss_state s"; cases ev) (simp_all add: step_def)

lemma step_not_revived: "inFlight (step s ev) \<Longrightarrow> inFlight s"
  by (cases "ss_state s"; cases ev) (simp_all add: step_def inFlight_def)

lemma startGeneration_accepted:
  assumes "\<forall>s\<in>set table. ss_conversation s = c \<longrightarrow> \<not> inFlight s"
  shows "startGeneration table c =
         (Inr \<lparr>ss_id = freshId table, ss_conversation = c, ss_state = Pending,
               ss_output = [], ss_cancel_flag = False\<rparr>,
          table @ [\<lparr>ss_id = freshId table, ss_conversation = c, ss_state = Pending,
                     ss_output = [], ss_cancel_flag = False\<rparr>])"
  using assms by (auto simp: startGeneration_def list_ex_iff Let_def)

lemma atMostOneInFlight_start:
  assumes "atMostOneInFlight table"
  shows "atMostOneInFlight (snd (startGeneration table c))"
proof (cases "list_ex (\<lambda>s. ss_conversation s = c \<and> inFlight s) table")
  case True
  with assms show ?thesis by (simp add: startGeneration_def)
next
  case False
  then have free: "\<forall>s\<in>set table. ss_conversation s = c \<longrightarrow> \<not> inFlight s"
    by (auto simp: list_ex_iff)
  have "freshId table \<notin> ss_id ` set table"
  proof
    assume "freshId table \<in> ss_id ` set table"
    then obtain x where "x \<in> set table" and "freshId table = ss_id x"
      by auto
    with freshId_above [of x table] show False by simp
  qed
  moreover have "c \<notin> ss_conversation ` set (filter inFlight table)"
    using free by auto
  ultimately show ?thesis
    using assms
    by (simp add: startGeneration_accepted [OF free] atMostOneInFlight_def inFlight_def)
qed

lemma inFlight_deliver_subset:
  "set (map ss_conversation (filter inFlight (deliver table sid ev))) \<subseteq>
   set (map ss_conversation (filter inFlight table))"
  using step_not_revived step_keeps_identity
  by (fastforce simp: deliver_def)

lemma distinct_inFlight_deliver:
  "distinct (map ss_conversation (filter inFlight table)) \<Longrightarrow>
   distinct (map ss_conversation (filter inFlight (deliver table sid ev)))"
proof (induction table)
  case Nil
  show ?case by (simp add: deliver_def)
next
  case (Cons s rest)
  have tl: "deliver (s # rest) sid ev = (if ss_id s = sid then step s ev else s) # deliver rest sid ev"
    by (simp add: deliver_def)
  from Cons have ih: "distinct (map ss_conversation (filter inFlight (deliver rest sid ev)))"
    by (auto split: if_splits)
  show ?case
  proof (cases "inFlight (if ss_id s = sid then step s ev else s)")
    case False
    with ih show ?thesis by (simp add: tl)
  next
    case True
    then have live: "inFlight s"
      by (auto split: if_splits dest: step_not_revived)
    with Cons.prems have "ss_conversation s \<notin> set (map ss_conversation (filter inFlight rest))"
      by simp
    with inFlight_deliver_subset [of rest sid ev]
    have "ss_conversation s \<notin> set (map ss_conversation (filter inFlight (deliver rest sid ev)))"
      by blast
    moreover have "ss_conversation (if ss_id s = sid then step s ev else s) = ss_conversation s"
      by (simp add: step_keeps_identity)
    ultimately show ?thesis
      using True ih unfolding tl by simp
  qed
qed

lemma atMostOneInFlight_deliver:
  assumes "atMostOneInFlight table"
  shows "atMostOneInFlight (deliver table sid ev)"
proof -
  have "map ss_id (deliver table sid ev) = map ss_id table"
    by (simp add: deliver_def step_keeps_identity)
  with assms distinct_inFlight_deliver [of table sid ev] show ?thesis
    by (simp add: atMostOneInFlight_def)
qed

text \<open>
  Whatever requests the manager has served, no two sessions share an id and no
  conversation has two sessions in flight.
\<close>

lemma atMostOneInFlight_served:
  "atMostOneInFlight table \<Longrightarrow> atMostOneInFlight (foldl serve table requests)"
proof (induction requests arbitrary: table)
  case Nil
  then show ?case by simp
next
  case (Cons r rs)
  have "atMostOneInFlight (serve table r)"
    using Cons.prems
    by (cases r) (simp_all add: atMostOneInFlight_start atMostOneInFlight_deliver)
  then show ?case by (simp add: Cons.IH)
qed

text \<open>
  C7. While a session of a conversation is \<^verbatim>\<open>Pending\<close> or \<^verbatim>\<open>Streaming\<close>, starting
  a second generation for that conversation is answered with \<^verbatim>\<open>SessionConflict\<close>,
  and the session table after the call is the table before it: the session in
  flight is still in it, with the state and the accumulated output it had, and no
  other session has changed or been added.
\<close>

theorem startGeneration_conflict:
  assumes "s \<in> set table" and "ss_conversation s = c"
    and "ss_state s = Pending \<or> ss_state s = Streaming"
  shows "fst (startGeneration table c) = Inl SessionConflict \<and>
         snd (startGeneration table c) = table \<and>
         s \<in> set (snd (startGeneration table c))"
proof -
  from assms have "list_ex (\<lambda>x. ss_conversation x = c \<and> inFlight x) table"
    by (auto simp: list_ex_iff inFlight_def)
  then have "startGeneration table c = (Inl SessionConflict, table)"
    by (simp add: startGeneration_def)
  with assms(1) show ?thesis by simp
qed

theorem startGeneration_conflict_witness:
  "\<lparr>ss_id = 1, ss_conversation = ''b'', ss_state = Streaming, ss_output = ''The'',
     ss_cancel_flag = False\<rparr> \<in> set streamingTable \<and>
   startGeneration streamingTable ''b'' = (Inl SessionConflict, streamingTable) \<and>
   map ss_output streamingTable = [''The'', []] \<and>
   fst (startGeneration (deliver streamingTable 1 CancelRequest) ''b'') =
     Inr \<lparr>ss_id = 3, ss_conversation = ''b'', ss_state = Pending, ss_output = [],
          ss_cancel_flag = False\<rparr>"
proof -
  let ?s = "\<lparr>ss_id = 1, ss_conversation = ''b'', ss_state = Streaming, ss_output = ''The'',
     ss_cancel_flag = False\<rparr>"
  have t: "streamingTable =
      [?s, \<lparr>ss_id = 2, ss_conversation = ''c'', ss_state = Pending, ss_output = [],
             ss_cancel_flag = False\<rparr>]"
    by (simp add: streamingTable_def startGeneration_def deliver_def step_def freshId_def
        inFlight_def Let_def)
  have m: "?s \<in> set streamingTable"
    by (simp add: t)
  from startGeneration_conflict [OF m, of "''b''"]
  have c: "startGeneration streamingTable ''b'' = (Inl SessionConflict, streamingTable)"
    by (simp add: prod_eq_iff)
  have o: "map ss_output streamingTable = [''The'', []]"
    by (simp add: t)
  have a: "fst (startGeneration (deliver streamingTable 1 CancelRequest) ''b'') =
     Inr \<lparr>ss_id = 3, ss_conversation = ''b'', ss_state = Pending, ss_output = [],
          ss_cancel_flag = False\<rparr>"
    by (simp add: t startGeneration_def deliver_def step_def freshId_def inFlight_def Let_def)
  from m c o a show ?thesis by (intro conjI)
qed

end
